theory Spec2Isabelle
  imports Complex_Main "HOL-Library.Sublist"
begin

section \<open>Go values the client works with\<close>

subsection \<open>Errors\<close>

text \<open>
  A Go \<open>error\<close> is kept as the call that built it. \<open>fmt.Errorf\<close> is given its format
  string cut into literal text and verbs, so \<open>fmt.Errorf("signin failed: %w", err)\<close> is
  \<open>fmt_Errorf [Lit ''signin failed: '', Verb_w err]\<close>. \<open>NumError\<close> is the error type of
  \<open>strconv\<close>; \<open>LibError\<close> is an error made inside \<open>net/http\<close>, \<open>encoding/json\<close> or \<open>io\<close>,
  of which only the message is kept.
\<close>

datatype go_error =
    errors_New string
  | fmt_Errorf "fmt_arg list"
  | NumError string string go_error
  | LibError string
and fmt_arg =
    Lit string
  | Verb_s string
  | Verb_d int
  | Verb_q string
  | Verb_w go_error

definition ErrSyntax :: go_error where
  "ErrSyntax = errors_New ''invalid syntax''"

definition ErrRange :: go_error where
  "ErrRange = errors_New ''value out of range''"

text \<open>Decimal rendering of an integer, as the verb \<open>%d\<close> prints it.\<close>

fun digits10 :: "nat \<Rightarrow> string" where
  "digits10 n =
     (if n < 10 then [''0123456789'' ! n]
      else digits10 (n div 10) @ [''0123456789'' ! (n mod 10)])"

definition itoa :: "int \<Rightarrow> string" where
  "itoa i = (if i < 0 then CHR ''-'' # digits10 (nat (- i)) else digits10 (nat i))"

text \<open>
  The method \<open>Error()\<close> of an error, here \<open>message\<close>. The quoting of \<open>strconv.Quote\<close> (used by \<open>%q\<close> and by
  \<open>NumError\<close>) depends on the Unicode tables of the Go runtime; it is the parameter \<open>q\<close>.
\<close>

fun message :: "(string \<Rightarrow> string) \<Rightarrow> go_error \<Rightarrow> string"
  and render :: "(string \<Rightarrow> string) \<Rightarrow> fmt_arg \<Rightarrow> string"
  and render_all :: "(string \<Rightarrow> string) \<Rightarrow> fmt_arg list \<Rightarrow> string" where
  "message q (errors_New s) = s"
| "message q (fmt_Errorf args) = render_all q args"
| "message q (NumError fn num err) =
     ''strconv.'' @ fn @ '': parsing '' @ q num @ '': '' @ message q err"
| "message q (LibError s) = s"
| "render q (Lit s) = s"
| "render q (Verb_s s) = s"
| "render q (Verb_d i) = itoa i"
| "render q (Verb_q s) = q s"
| "render q (Verb_w err) = message q err"
| "render_all q [] = []"
| "render_all q (a # as) = render q a @ render_all q as"

subsection \<open>float64\<close>

text \<open>
  An IEEE 754 binary64 value. A finite value is \<open>Finite m e\<close>, the number \<open>m \<sqdot> 2\<^sup>e\<close> with
  \<open>m\<close> odd, or \<open>Finite 0 0\<close> for \<open>+0\<close>; so two values are the same float exactly when
  they are the same term. Next to it negative zero, the two infinities and NaN.
\<close>

datatype float64 = Finite int int | NegZero | PosInf | NegInf | NaN

definition pow2 :: "int \<Rightarrow> rat" where
  "pow2 e = (if 0 \<le> e then 2 ^ nat e else 1 / 2 ^ nat (- e))"

definition float64_val :: "float64 \<Rightarrow> rat option" where
  \<comment> \<open>the number a float denotes, when it is one\<close>
  "float64_val x =
     (case x of Finite m e \<Rightarrow> Some (of_int m * pow2 e) | NegZero \<Rightarrow> Some 0 | _ \<Rightarrow> None)"

function bitlen_from :: "int \<Rightarrow> int \<Rightarrow> int \<Rightarrow> int" where
  \<comment> \<open>the least \<open>j \<ge> k\<close> with \<open>n < 2\<^sup>j\<close>, given \<open>p = 2\<^sup>k\<close>; in steps of 32 while they fit\<close>
  "bitlen_from n p k =
     (if n < p \<or> p \<le> 0 then k
      else if 4294967296 * p \<le> n then bitlen_from n (4294967296 * p) (k + 32)
      else bitlen_from n (2 * p) (k + 1))"
  by pat_completeness auto
termination
  by (relation "measure (\<lambda>(n, p, k). nat (n + 1 - p))") auto

definition bitlen :: "int \<Rightarrow> int" where
  \<comment> \<open>the number of binary digits of a positive integer\<close>
  "bitlen n = bitlen_from n 1 0"

function normal :: "int \<Rightarrow> int \<Rightarrow> float64" where
  \<comment> \<open>\<open>m \<sqdot> 2\<^sup>e\<close> with the factors of two moved from \<open>m\<close> into the exponent\<close>
  "normal m e =
     (if m = 0 then Finite 0 0
      else if even m then normal (m div 2) (e + 1)
      else Finite m e)"
  by pat_completeness auto
termination
  by (relation "measure (\<lambda>(m, e). nat \<bar>m\<bar>)") auto

text \<open>
  Rounding to nearest, ties to even, of a positive fraction \<open>a / d\<close>: 53 bits of precision,
  binary exponents from -1022 (below that, the subnormal spacing \<open>2\<^sup>-\<^sup>1\<^sup>0\<^sup>7\<^sup>4\<close>), an infinity
  from \<open>2\<^sup>1\<^sup>0\<^sup>2\<^sup>4\<close> on. The steps are separate functions, each on numbers already computed.
\<close>

definition ge_pow2 :: "int \<Rightarrow> int \<Rightarrow> int \<Rightarrow> bool" where
  \<comment> \<open>\<open>2\<^sup>k \<le> a / d\<close>\<close>
  "ge_pow2 a d k = (if 0 \<le> k then d * 2 ^ nat k \<le> a else d \<le> a * 2 ^ nat (- k))"

definition exponent_near :: "int \<Rightarrow> int \<Rightarrow> int \<Rightarrow> int" where
  \<comment> \<open>\<open>\<lfloor>log\<^sub>2 (a / d)\<rfloor>\<close>, which is \<open>k\<close> or \<open>k - 1\<close>, and not below -1022\<close>
  "exponent_near a d k = max (if ge_pow2 a d k then k else k - 1) (- 1022)"

definition float64_exponent :: "int \<Rightarrow> int \<Rightarrow> int" where
  "float64_exponent a d = exponent_near a d (bitlen a - bitlen d)"

definition nearest_even :: "int \<Rightarrow> int \<Rightarrow> int \<Rightarrow> int" where
  \<comment> \<open>quotient \<open>q\<close> and remainder \<open>r\<close> of a division by \<open>den\<close>, rounded\<close>
  "nearest_even q r den =
     (if 2 * r < den then q
      else if den < 2 * r then q + 1
      else if even q then q else q + 1)"

definition round_quotient :: "int \<Rightarrow> int \<Rightarrow> int" where
  "round_quotient num den = nearest_even (num div den) (num mod den) den"

definition mantissa_at :: "int \<Rightarrow> int \<Rightarrow> int \<Rightarrow> int" where
  \<comment> \<open>\<open>a / d\<close> in units of \<open>2\<^sup>s\<close>, rounded\<close>
  "mantissa_at a d s =
     (if 0 \<le> s then round_quotient a (d * 2 ^ nat s) else round_quotient (a * 2 ^ nat (- s)) d)"

definition pack :: "bool \<Rightarrow> int \<Rightarrow> int \<Rightarrow> float64" where
  \<comment> \<open>the float \<open>\<plusminus> n \<sqdot> 2\<^sup>s\<close> for a rounded mantissa \<open>n \<le> 2\<^sup>5\<^sup>3\<close>: an infinity when
      \<open>n \<sqdot> 2\<^sup>s\<close> reaches \<open>2\<^sup>1\<^sup>0\<^sup>2\<^sup>4 = 2\<^sup>5\<^sup>3 \<sqdot> 2\<^sup>9\<^sup>7\<^sup>1\<close>, a zero when the value underflows\<close>
  "pack neg n s =
     (if s = 971 \<and> 9007199254740992 \<le> n then (if neg then NegInf else PosInf)
      else if n = 0 then (if neg then NegZero else Finite 0 0)
      else normal (if neg then - n else n) s)"

definition round_at :: "int \<Rightarrow> int \<Rightarrow> int \<Rightarrow> float64" where
  \<comment> \<open>\<open>s\<close> is the exponent of the last place: above 971 the value is beyond the largest float\<close>
  "round_at p d s =
     (if 971 < s then (if p < 0 then NegInf else PosInf)
      else pack (p < 0) (mantissa_at \<bar>p\<bar> d s) s)"

definition float64_round :: "int \<Rightarrow> int \<Rightarrow> float64" where
  \<comment> \<open>the float nearest to the fraction \<open>p / d\<close>, \<open>d > 0\<close>\<close>
  "float64_round p d =
     (if p = 0 then Finite 0 0 else round_at p d (float64_exponent \<bar>p\<bar> d - 52))"

definition float64_of_int64 :: "int \<Rightarrow> float64" where
  \<comment> \<open>the conversion \<open>float64(i)\<close>\<close>
  "float64_of_int64 i = float64_round i 1"

definition is_neg :: "float64 \<Rightarrow> bool" where
  \<comment> \<open>the sign bit (not read on NaN)\<close>
  "is_neg x = (case x of Finite m e \<Rightarrow> m < 0 | NegZero \<Rightarrow> True | NegInf \<Rightarrow> True | _ \<Rightarrow> False)"

definition is_zero :: "float64 \<Rightarrow> bool" where
  "is_zero x = (x = Finite 0 0 \<or> x = NegZero)"

definition is_inf :: "float64 \<Rightarrow> bool" where
  "is_inf x = (x = PosInf \<or> x = NegInf)"

definition quotient_frac :: "int \<Rightarrow> int \<Rightarrow> int \<Rightarrow> int \<Rightarrow> int \<times> int" where
  \<comment> \<open>\<open>(m1 \<sqdot> 2\<^sup>e\<^sup>1) / (m2 \<sqdot> 2\<^sup>e\<^sup>2)\<close> as a fraction of integers, the denominator positive\<close>
  "quotient_frac m1 e1 m2 e2 =
     (if e2 \<le> e1 then (sgn m2 * m1 * 2 ^ nat (e1 - e2), \<bar>m2\<bar>)
      else (sgn m2 * m1, \<bar>m2\<bar> * 2 ^ nat (e2 - e1)))"

definition float64_div :: "float64 \<Rightarrow> float64 \<Rightarrow> float64" where
  \<comment> \<open>the operator \<open>/\<close> on float64\<close>
  "float64_div x y =
     (if x = NaN \<or> y = NaN then NaN
      else if is_inf x \<and> is_inf y then NaN
      else if is_zero x \<and> is_zero y then NaN
      else if is_inf x \<or> is_zero y then (if is_neg x \<noteq> is_neg y then NegInf else PosInf)
      else if is_inf y \<or> is_zero x then (if is_neg x \<noteq> is_neg y then NegZero else Finite 0 0)
      else (case (x, y) of
              (Finite m1 e1, Finite m2 e2) \<Rightarrow>
                (case quotient_frac m1 e1 m2 e2 of (p, d) \<Rightarrow> float64_round p d)
            | _ \<Rightarrow> NaN))"

definition float64_100 :: float64 where
  \<comment> \<open>the constant \<open>100\<close> as a float64\<close>
  "float64_100 = Finite 25 2"

subsection \<open>strconv: ParseInt\<close>

definition syntaxError :: "string \<Rightarrow> string \<Rightarrow> go_error" where
  "syntaxError fn str = NumError fn str ErrSyntax"

definition rangeError :: "string \<Rightarrow> string \<Rightarrow> go_error" where
  "rangeError fn str = NumError fn str ErrRange"

definition is_digit :: "char \<Rightarrow> bool" where
  \<comment> \<open>\<open>'0' <= c && c <= '9'\<close>\<close>
  "is_digit c = (c \<in> set ''0123456789'')"

definition digit_val :: "char \<Rightarrow> int" where
  \<comment> \<open>\<open>c - '0'\<close>\<close>
  "digit_val c = of_char c - 48"

definition maxUint64 :: int where
  "maxUint64 = 18446744073709551615"

text \<open>
  \<open>strconv.ParseUint(s, 10, 64)\<close>: the loop over the bytes of \<open>s\<close>, with the \<open>uint64\<close>
  accumulator \<open>n\<close> as an integer and both overflow tests written out. In base 10 a letter is
  a digit \<open>\<ge> 10\<close> and an underscore is no digit at all: all but \<open>0\<close>..\<open>9\<close> is a syntax error.
  The result is the pair of Go's two return values.
\<close>

fun ParseUint_loop :: "string \<Rightarrow> int \<Rightarrow> string \<Rightarrow> int \<times> go_error option" where
  "ParseUint_loop s0 n [] = (n, None)"
| "ParseUint_loop s0 n (c # cs) =
     (if \<not> is_digit c then (0, Some (syntaxError ''ParseUint'' s0))
      else if maxUint64 div 10 + 1 \<le> n then (maxUint64, Some (rangeError ''ParseUint'' s0))
      else if maxUint64 < n * 10 + digit_val c then (maxUint64, Some (rangeError ''ParseUint'' s0))
      else ParseUint_loop s0 (n * 10 + digit_val c) cs)"

definition ParseUint :: "string \<Rightarrow> int \<times> go_error option" where
  "ParseUint s =
     (if s = [] then (0, Some (syntaxError ''ParseUint'' s)) else ParseUint_loop s 0 s)"

fun is_range :: "go_error \<Rightarrow> bool" where
  \<comment> \<open>\<open>err.(*NumError).Err == ErrRange\<close>\<close>
  "is_range (NumError fn num err) = (err = ErrRange)"
| "is_range _ = False"

definition ParseInt_signed :: "string \<Rightarrow> bool \<Rightarrow> int \<times> go_error option \<Rightarrow> go_error + int" where
  \<comment> \<open>the second half of ParseInt: \<open>s0\<close> the input, \<open>neg\<close> its sign, then what ParseUint returned\<close>
  "ParseInt_signed s0 neg r =
     (case r of (un, err) \<Rightarrow>
        if err \<noteq> None \<and> \<not> is_range (the err) then Inl (syntaxError ''ParseInt'' s0)
        else if \<not> neg \<and> 9223372036854775808 \<le> un then Inl (rangeError ''ParseInt'' s0)
        else if neg \<and> 9223372036854775808 < un then Inl (rangeError ''ParseInt'' s0)
        else Inr (if neg then - un else un))"

definition ParseInt :: "string \<Rightarrow> go_error + int" where
  \<comment> \<open>\<open>strconv.ParseInt(s, 10, 64)\<close>\<close>
  "ParseInt s0 =
     (case s0 of
        [] \<Rightarrow> Inl (syntaxError ''ParseInt'' s0)
      | c # cs \<Rightarrow>
          if c = CHR ''+'' then ParseInt_signed s0 False (ParseUint cs)
          else if c = CHR ''-'' then ParseInt_signed s0 True (ParseUint cs)
          else ParseInt_signed s0 False (ParseUint s0))"

subsection \<open>strconv: ParseFloat\<close>

text \<open>
  \<open>strconv.ParseFloat(s, 64)\<close> accepts \<open>inf\<close>, \<open>infinity\<close> and \<open>nan\<close> in any case, and the
  decimal and hexadecimal floating-point numbers of the Go syntax, underscores between
  digits included. Its result is the float nearest to the number written; the model keeps
  every digit of the mantissa where Go keeps 19 and a note that more followed, and rounds
  once at the end.
\<close>

definition lower :: "char \<Rightarrow> char" where
  \<comment> \<open>\<open>c | ('x' - 'X')\<close>: the byte with bit 5 set\<close>
  "lower c = (if (of_char c :: int) div 32 mod 2 = 0 then char_of (of_char c + (32 :: int)) else c)"

definition is_hex_letter :: "char \<Rightarrow> bool" where
  \<comment> \<open>\<open>'a' <= lower(c) && lower(c) <= 'f'\<close>\<close>
  "is_hex_letter c = (lower c \<in> set ''abcdef'')"

definition hex_val :: "char \<Rightarrow> int" where
  \<comment> \<open>\<open>lower(c) - 'a' + 10\<close>\<close>
  "hex_val c = of_char (lower c) - 97 + 10"

definition ascii_lower :: "char \<Rightarrow> char" where
  \<comment> \<open>\<open>if 'A' <= c && c <= 'Z' { c += 'a' - 'A' }\<close>\<close>
  "ascii_lower c =
     (if c \<in> set ''ABCDEFGHIJKLMNOPQRSTUVWXYZ'' then char_of (of_char c + (32 :: int)) else c)"

fun commonPrefixLenIgnoreCase :: "string \<Rightarrow> string \<Rightarrow> int" where
  "commonPrefixLenIgnoreCase (c # s) (p # pfx) =
     (if ascii_lower c = p then 1 + commonPrefixLenIgnoreCase s pfx else 0)"
| "commonPrefixLenIgnoreCase _ _ = 0"

definition special_inf :: "bool \<Rightarrow> int \<Rightarrow> int \<Rightarrow> (float64 \<times> int) option" where
  \<comment> \<open>\<open>n\<close> bytes in common with \<open>infinity\<close>: all of it, or else only \<open>inf\<close>\<close>
  "special_inf neg nsign n =
     (if n = 3 \<or> (3 < n \<and> n < 8) then Some (if neg then NegInf else PosInf, nsign + 3)
      else if n = 8 then Some (if neg then NegInf else PosInf, nsign + 8)
      else None)"

definition special :: "string \<Rightarrow> (float64 \<times> int) option" where
  \<comment> \<open>the value and the number of bytes read, when \<open>s\<close> starts with an infinity or NaN\<close>
  "special s =
     (case s of
        [] \<Rightarrow> None
      | c # cs \<Rightarrow>
          if c = CHR ''+'' \<or> c = CHR ''-'' then
            special_inf (c = CHR ''-'') 1 (commonPrefixLenIgnoreCase cs ''infinity'')
          else if c = CHR ''i'' \<or> c = CHR ''I'' then
            special_inf False 0 (commonPrefixLenIgnoreCase s ''infinity'')
          else if c = CHR ''n'' \<or> c = CHR ''N'' then
            (if commonPrefixLenIgnoreCase s ''nan'' = 3 then Some (NaN, 3) else None)
          else None)"

record scan =
  mantissa :: int
  nd :: int
  dp :: int
  sawdot :: bool
  sawdigits :: bool
  underscores :: bool

text \<open>
  The digit loop of \<open>readFloat\<close>, up to the first byte it does not take; that byte and what
  follows are returned with the state. \<open>base\<close> is 10 or 16.
\<close>

fun scan_digits :: "int \<Rightarrow> scan \<Rightarrow> string \<Rightarrow> scan \<times> string" where
  "scan_digits base st [] = (st, [])"
| "scan_digits base st (c # cs) =
     (if c = CHR ''_'' then scan_digits base (st\<lparr>underscores := True\<rparr>) cs
      else if c = CHR ''.'' then
        (if sawdot st then (st, c # cs)
         else scan_digits base (st\<lparr>sawdot := True, dp := nd st\<rparr>) cs)
      else if is_digit c then
        (if c = CHR ''0'' \<and> nd st = 0 then
           scan_digits base (st\<lparr>sawdigits := True, dp := dp st - 1\<rparr>) cs
         else
           scan_digits base
             (st\<lparr>sawdigits := True, nd := nd st + 1,
                 mantissa := mantissa st * base + digit_val c\<rparr>) cs)
      else if base = 16 \<and> is_hex_letter c then
        scan_digits base
          (st\<lparr>sawdigits := True, nd := nd st + 1, mantissa := mantissa st * 16 + hex_val c\<rparr>) cs
      else (st, c # cs))"

text \<open>The exponent loop: digits and underscores; the exponent stops growing at 10000.\<close>

fun scan_exponent :: "int \<Rightarrow> bool \<Rightarrow> string \<Rightarrow> int \<times> bool \<times> string" where
  "scan_exponent e us [] = (e, us, [])"
| "scan_exponent e us (c # cs) =
     (if c = CHR ''_'' then scan_exponent e True cs
      else if is_digit c then scan_exponent (if e < 10000 then e * 10 + digit_val c else e) us cs
      else (e, us, c # cs))"

text \<open>
  \<open>underscoreOK\<close>: an underscore stands between two digits, or between a base prefix and a
  digit. \<open>saw\<close> is the last byte seen, as in the Go code: \<open>0\<close> a digit, \<open>_\<close> an underscore,
  \<open>!\<close> another byte, \<open>^\<close> the beginning.
\<close>

fun underscoreOK_loop :: "bool \<Rightarrow> char \<Rightarrow> string \<Rightarrow> bool" where
  "underscoreOK_loop hex saw [] = (saw \<noteq> CHR ''_'')"
| "underscoreOK_loop hex saw (c # cs) =
     (if is_digit c \<or> (hex \<and> is_hex_letter c) then underscoreOK_loop hex (CHR ''0'') cs
      else if c = CHR ''_'' then
        (if saw \<noteq> CHR ''0'' then False else underscoreOK_loop hex (CHR ''_'') cs)
      else if saw = CHR ''_'' then False
      else underscoreOK_loop hex (CHR ''!'') cs)"

definition underscoreOK_prefixed :: "string \<Rightarrow> bool" where
  \<comment> \<open>after the optional sign: the optional base prefix, then the number proper\<close>
  "underscoreOK_prefixed s =
     (if 2 \<le> length s \<and> hd s = CHR ''0'' \<and> lower (s ! 1) \<in> set ''box'' then
        underscoreOK_loop (lower (s ! 1) = CHR ''x'') (CHR ''0'') (drop 2 s)
      else underscoreOK_loop False (CHR ''^'') s)"

definition underscoreOK :: "string \<Rightarrow> bool" where
  "underscoreOK s =
     (if s \<noteq> [] \<and> (hd s = CHR ''-'' \<or> hd s = CHR ''+'') then underscoreOK_prefixed (tl s)
      else underscoreOK_prefixed s)"

text \<open>
  \<open>readFloat\<close>: sign, base prefix, digits, exponent. The result is the sign, whether the
  number is hexadecimal, the mantissa as an integer, the exponent of the base (10, or 2 for
  a hexadecimal number) that goes with it, and the bytes left unread.
\<close>

type_synonym float_parts = "bool \<times> bool \<times> int \<times> int \<times> string"

definition readFloat_finish ::
  "string \<Rightarrow> bool \<Rightarrow> bool \<Rightarrow> int \<Rightarrow> int \<Rightarrow> int \<Rightarrow> bool \<Rightarrow> string \<Rightarrow> float_parts option" where
  "readFloat_finish s0 neg hex mant ndMant dpt us rest =
     (if us \<and> \<not> underscoreOK (take (length s0 - length rest) s0) then None
      else Some (neg, hex, mant, (if mant \<noteq> 0 then dpt - ndMant else 0), rest))"

definition readFloat_exponent_digits ::
  "string \<Rightarrow> bool \<Rightarrow> bool \<Rightarrow> int \<Rightarrow> int \<Rightarrow> int \<Rightarrow> bool \<Rightarrow> int \<Rightarrow> string \<Rightarrow> float_parts option" where
  "readFloat_exponent_digits s0 neg hex mant ndMant dpt us esign r =
     (if r = [] \<or> \<not> is_digit (hd r) then None
      else (case scan_exponent 0 us r of
              (e, us', rest) \<Rightarrow> readFloat_finish s0 neg hex mant ndMant (dpt + e * esign) us' rest))"

definition readFloat_exponent ::
  "string \<Rightarrow> bool \<Rightarrow> bool \<Rightarrow> int \<Rightarrow> int \<Rightarrow> int \<Rightarrow> bool \<Rightarrow> string \<Rightarrow> float_parts option" where
  "readFloat_exponent s0 neg hex mant ndMant dpt us rest =
     (if rest \<noteq> [] \<and> lower (hd rest) = (if hex then CHR ''p'' else CHR ''e'') then
        (case tl rest of
           [] \<Rightarrow> None
         | c # r \<Rightarrow>
             if c = CHR ''+'' then readFloat_exponent_digits s0 neg hex mant ndMant dpt us 1 r
             else if c = CHR ''-'' then readFloat_exponent_digits s0 neg hex mant ndMant dpt us (- 1) r
             else readFloat_exponent_digits s0 neg hex mant ndMant dpt us 1 (c # r))
      else if hex then None
      else readFloat_finish s0 neg hex mant ndMant dpt us rest)"

definition readFloat_digits :: "string \<Rightarrow> bool \<Rightarrow> bool \<Rightarrow> string \<Rightarrow> float_parts option" where
  "readFloat_digits s0 neg hex s =
     (case scan_digits (if hex then 16 else 10)
             \<lparr>mantissa = 0, nd = 0, dp = 0, sawdot = False, sawdigits = False,
              underscores = False\<rparr> s of
        (st, rest) \<Rightarrow>
          if \<not> sawdigits st then None
          else readFloat_exponent s0 neg hex (mantissa st)
                 (if hex then 4 * nd st else nd st)
                 ((if hex then 4 else 1) * (if sawdot st then dp st else nd st))
                 (underscores st) rest)"

definition readFloat_base :: "string \<Rightarrow> bool \<Rightarrow> string \<Rightarrow> float_parts option" where
  "readFloat_base s0 neg s =
     (if 2 < length s \<and> hd s = CHR ''0'' \<and> lower (s ! 1) = CHR ''x'' then
        readFloat_digits s0 neg True (drop 2 s)
      else readFloat_digits s0 neg False s)"

definition readFloat :: "string \<Rightarrow> float_parts option" where
  "readFloat s0 =
     (case s0 of
        [] \<Rightarrow> None
      | c # cs \<Rightarrow>
          if c = CHR ''+'' then readFloat_base s0 False cs
          else if c = CHR ''-'' then readFloat_base s0 True cs
          else readFloat_base s0 False s0)"

definition nearest_float64 :: "bool \<Rightarrow> int \<Rightarrow> int \<Rightarrow> int \<Rightarrow> float64" where
  \<comment> \<open>the float nearest to \<open>\<plusminus> mant \<sqdot> base\<^sup>e\<^sup>x\<close>\<close>
  "nearest_float64 neg base mant ex =
     (if 0 \<le> ex then float64_round ((if neg then - mant else mant) * base ^ nat ex) 1
      else float64_round (if neg then - mant else mant) (base ^ nat (- ex)))"

definition float64_or_range :: "string \<Rightarrow> float64 \<Rightarrow> go_error + float64" where
  \<comment> \<open>a number beyond the largest float is a range error\<close>
  "float64_or_range s f = (if is_inf f then Inl (rangeError ''ParseFloat'' s) else Inr f)"

definition ParseFloat :: "string \<Rightarrow> go_error + float64" where
  \<comment> \<open>\<open>strconv.ParseFloat(s, 64)\<close>; all of \<open>s\<close> has to be read\<close>
  "ParseFloat s =
     (case special s of
        Some (f, n) \<Rightarrow> if n = int (length s) then Inr f else Inl (syntaxError ''ParseFloat'' s)
      | None \<Rightarrow>
          (case readFloat s of
             None \<Rightarrow> Inl (syntaxError ''ParseFloat'' s)
           | Some (neg, hex, mant, ex, rest) \<Rightarrow>
               if rest \<noteq> [] then Inl (syntaxError ''ParseFloat'' s)
               else if mant = 0 then Inr (if neg then NegZero else Finite 0 0)
               else float64_or_range s (nearest_float64 neg (if hex then 2 else 10) mant ex)))"

subsection \<open>encoding/json: Number\<close>

text \<open>A \<open>json.Number\<close> is a string; its methods call \<open>strconv\<close>.\<close>

definition Int64 :: "string \<Rightarrow> go_error + int" where
  "Int64 n = ParseInt n"

definition Float64 :: "string \<Rightarrow> go_error + float64" where
  "Float64 n = ParseFloat n"

subsection \<open>strings and io\<close>

definition TrimRight_byte :: "string \<Rightarrow> char \<Rightarrow> string" where
  \<comment> \<open>\<open>strings.TrimRight(s, cutset)\<close> for a cutset of one ASCII byte\<close>
  "TrimRight_byte s c = rev (dropWhile (\<lambda>x. x = c) (rev s))"

text \<open>
  \<open>strings.TrimSpace\<close> removes the white space of Unicode from both ends: six ASCII bytes,
  U+0085 and U+00A0 (two bytes each in UTF-8), and U+1680, U+2000 to U+200A, U+2028, U+2029,
  U+202F, U+205F and U+3000 (three bytes each). \<open>space_width\<close> is the length of the white
  space a string starts with, \<open>space_width_end\<close> of the one it ends with (its bytes given
  last to first).
\<close>

fun space_width :: "string \<Rightarrow> nat" where
  "space_width [] = 0"
| "space_width (c # cs) =
     (if c \<in> {CHR 0x09, CHR 0x0A, CHR 0x0B, CHR 0x0C, CHR 0x0D, CHR 0x20} then 1
      else if c = CHR 0xC2 \<and> take 1 cs \<in> {[CHR 0x85], [CHR 0xA0]} then 2
      else if c = CHR 0xE1 \<and> take 2 cs = [CHR 0x9A, CHR 0x80] then 3
      else if c = CHR 0xE2 \<and> take 1 cs = [CHR 0x80] \<and>
              take 1 (drop 1 cs) \<in> (\<lambda>b. [b]) ` {CHR 0x80, CHR 0x81, CHR 0x82, CHR 0x83,
                CHR 0x84, CHR 0x85, CHR 0x86, CHR 0x87, CHR 0x88, CHR 0x89, CHR 0x8A,
                CHR 0xA8, CHR 0xA9, CHR 0xAF} then 3
      else if c = CHR 0xE2 \<and> take 2 cs = [CHR 0x81, CHR 0x9F] then 3
      else if c = CHR 0xE3 \<and> take 2 cs = [CHR 0x80, CHR 0x80] then 3
      else 0)"

fun space_width_end :: "string \<Rightarrow> nat" where
  "space_width_end [] = 0"
| "space_width_end (c # cs) =
     (if c \<in> {CHR 0x09, CHR 0x0A, CHR 0x0B, CHR 0x0C, CHR 0x0D, CHR 0x20} then 1
      else if c \<in> {CHR 0x85, CHR 0xA0} \<and> take 1 cs = [CHR 0xC2] then 2
      else if space_width (rev (take 3 (c # cs))) = 3 then 3
      else 0)"

fun trim_start :: "nat \<Rightarrow> (string \<Rightarrow> nat) \<Rightarrow> string \<Rightarrow> string" where
  \<comment> \<open>white space removed from the front, at most \<open>n\<close> times; \<open>n\<close> is the length of the string\<close>
  "trim_start 0 width s = s"
| "trim_start (Suc n) width s =
     (if width s = 0 then s else trim_start n width (drop (width s) s))"

definition TrimSpace :: "string \<Rightarrow> string" where
  "TrimSpace s =
     (let t = trim_start (length s) space_width s
      in rev (trim_start (length t) space_width_end (rev t)))"

definition ToLower :: "string \<Rightarrow> string" where
  \<comment> \<open>\<open>strings.ToLower\<close> on the letters A to Z. Other bytes are left alone; the only use
      compares the result with ASCII words, and no letter outside ASCII has a lower case
      among the letters of these words\<close>
  "ToLower s = map ascii_lower s"

text \<open>
  An \<open>io.Reader\<close> is the bytes it delivers and how it ends: with EOF, with a read error
  returned by the call after the one that gave the last bytes, or with a read error returned
  together with the last bytes. \<open>io.ReadAll(io.LimitReader(r, n))\<close> asks for no more than
  \<open>n\<close> bytes and stops without an error once it has them, unless the call that gave the
  last of them returned an error as well.
\<close>

datatype reader_end = EOF | Fails_after go_error | Fails_with_last_bytes go_error

datatype reader = Reader string reader_end

fun ReadAll_LimitReader :: "reader \<Rightarrow> nat \<Rightarrow> go_error + string" where
  "ReadAll_LimitReader (Reader bytes ending) n =
     (if n = 0 then Inr []
      else if n < length bytes then Inr (take n bytes)
      else
        (case ending of
           EOF \<Rightarrow> Inr bytes
         | Fails_after err \<Rightarrow> if n = length bytes then Inr bytes else Inl err
         | Fails_with_last_bytes err \<Rightarrow> Inl err))"

definition readRespBody :: "reader option \<Rightarrow> string" where
  "readRespBody r =
     (case r of
        None \<Rightarrow> []
      | Some rd \<Rightarrow>
          (case ReadAll_LimitReader rd 512 of
             Inl err \<Rightarrow> []
           | Inr b \<Rightarrow> TrimSpace b))"

section \<open>The client (package edenred)\<close>

subsection \<open>net/http and encoding/json as the client sees them\<close>

record signInRequest =
  Username :: string
  Password :: string
  RecaptchaToken :: string

record signInResponse =
  SessionToken :: string
  RefreshToken :: string
  ExpiresIn :: int
  Error :: string
  ErrorCode :: string
  FieldName :: string

record userBenefit =
  CardType :: string
  WalletType :: string
  CardStatus :: string
  Balance :: string
  MobileAvailable :: bool
  MobilePayment :: bool
  ExpectsRenewedCard :: "string option"
  AccountActive :: bool

record userBenefitsResponse =
  Benefits :: "userBenefit list"

text \<open>
  A request is its method, its URL, its header (the fields set, under their canonical
  names, each with one value) and its body, which is absent or the JSON encoding of a
  \<open>signInRequest\<close>. \<open>json.Marshal\<close> of three strings has no error. An \<open>http.Cookie\<close> is
  built with a name and a value only.
\<close>

datatype http_Cookie = Cookie (Name: string) (Value: string)

datatype request_body = NoBody | JSON signInRequest

record http_request =
  Method :: string
  URL :: string
  Header :: "(string \<times> string) list"
  ReqBody :: request_body

record http_response =
  StatusCode :: int
  Body :: reader

datatype http_Client = http_Client (Timeout: int)

definition Second :: int where
  "Second = 1000000000"

text \<open>
  What lies outside the program: whether \<open>http.NewRequestWithContext\<close> refuses a method and
  URL, what \<open>httpClient.Do\<close> returns for a request (it may depend on the requests sent
  before, and also stands for the deadline of the context), how \<open>encoding/json\<close> decodes a
  response body into each of the two response types, and whether encoding the result to
  standard output fails.
\<close>

record env =
  NewRequest_error :: "string \<Rightarrow> string \<Rightarrow> go_error option"
  Do :: "http_Client \<Rightarrow> http_request list \<Rightarrow> http_request \<Rightarrow> go_error + http_response"
  Decode_signInResponse :: "reader \<Rightarrow> go_error + signInResponse"
  Decode_userBenefitsResponse :: "reader \<Rightarrow> go_error + userBenefitsResponse"
  Encode_error :: "(string \<times> float64) list \<Rightarrow> go_error option"

definition NewRequestWithContext :: "env \<Rightarrow> string \<Rightarrow> string \<Rightarrow> request_body \<Rightarrow> go_error + http_request" where
  "NewRequestWithContext e method url body =
     (case NewRequest_error e method url of
        Some err \<Rightarrow> Inl err
      | None \<Rightarrow> Inr \<lparr>Method = method, URL = url, Header = [], ReqBody = body\<rparr>)"

definition Header_Set :: "string \<Rightarrow> string \<Rightarrow> http_request \<Rightarrow> http_request" where
  "Header_Set k v req = req\<lparr>Header := filter (\<lambda>kv. fst kv \<noteq> k) (Header req) @ [(k, v)]\<rparr>"

definition Header_Get :: "string \<Rightarrow> http_request \<Rightarrow> string" where
  \<comment> \<open>the value of a field, or the empty string\<close>
  "Header_Get k req = (case map_of (Header req) k of None \<Rightarrow> [] | Some v \<Rightarrow> v)"

text \<open>
  \<open>Request.AddCookie\<close> writes \<open>name=value\<close> into the one \<open>Cookie\<close> field of the header, after
  \<open>; \<close> when the field has a value already. It sanitizes both: in the name a line feed
  or carriage return becomes \<open>-\<close>; of the value only the bytes from \<open>0x20\<close> to \<open>0x7E\<close> other
  than the double quote, the semicolon and the backslash are kept, and what is kept is put
  in double quotes when it has a space or a comma. (The line it logs for a dropped byte is
  left out.)
\<close>

definition sanitizeCookieName :: "string \<Rightarrow> string" where
  "sanitizeCookieName n = map (\<lambda>c. if c = CHR 0x0A \<or> c = CHR 0x0D then CHR ''-'' else c) n"

definition validCookieValueByte :: "char \<Rightarrow> bool" where
  "validCookieValueByte b =
     (32 \<le> (of_char b :: int) \<and> (of_char b :: int) < 127 \<and>
      b \<noteq> CHR 0x22 \<and> b \<noteq> CHR '';'' \<and> b \<noteq> CHR 0x5C)"

definition quote_if_needed :: "string \<Rightarrow> string" where
  \<comment> \<open>\<open>strings.ContainsAny(v, " ,")\<close>\<close>
  "quote_if_needed v =
     (if CHR '' '' \<in> set v \<or> CHR '','' \<in> set v then [CHR 0x22] @ v @ [CHR 0x22] else v)"

definition sanitizeCookieValue :: "string \<Rightarrow> string" where
  "sanitizeCookieValue v = quote_if_needed (filter validCookieValueByte v)"

definition AddCookie_header :: "string \<Rightarrow> string \<Rightarrow> http_request \<Rightarrow> http_request" where
  \<comment> \<open>\<open>s\<close> is the new pair, \<open>old\<close> the value of the field so far\<close>
  "AddCookie_header s old req =
     (if old \<noteq> [] then Header_Set ''Cookie'' (old @ ''; '' @ s) req
      else Header_Set ''Cookie'' s req)"

definition AddCookie :: "http_Cookie \<Rightarrow> http_request \<Rightarrow> http_request" where
  "AddCookie c req =
     AddCookie_header (sanitizeCookieName (Name c) @ ''='' @ sanitizeCookieValue (Value c))
       (Header_Get ''Cookie'' req) req"

text \<open>
  The state the client changes is the list of the requests sent so far. \<open>send\<close> is
  \<open>c.httpClient.Do(req)\<close>: the request is added to the list, whatever comes back.
\<close>

definition send :: "env \<Rightarrow> http_Client \<Rightarrow> http_request \<Rightarrow> http_request list \<Rightarrow>
    (go_error + http_response) \<times> http_request list" where
  "send e hc req sent = (Do e hc sent req, sent @ [req])"

subsection \<open>NewClient\<close>

record Client =
  baseURL :: string
  httpClient :: http_Client

definition defaultBaseURL :: string where
  "defaultBaseURL = ''https://api.myedenred.fi''"

definition NewClient :: "http_Client option \<Rightarrow> string \<Rightarrow> Client" where
  "NewClient hc url =
     \<lparr>baseURL = TrimRight_byte (if url = [] then defaultBaseURL else url) (CHR ''/''),
      httpClient = (case hc of None \<Rightarrow> http_Client (15 * Second) | Some h \<Rightarrow> h)\<rparr>"

subsection \<open>signIn\<close>

definition signIn_result :: "signInResponse \<Rightarrow> go_error + signInResponse" where
  \<comment> \<open>the last step of \<open>signIn\<close>, on the decoded body\<close>
  "signIn_result result =
     (if SessionToken result = [] then
        (if Error result \<noteq> [] then Inl (errors_New (Error result))
         else Inl (errors_New ''empty session token in response''))
      else Inr result)"

definition signIn_response :: "env \<Rightarrow> http_response \<Rightarrow> go_error + signInResponse" where
  \<comment> \<open>\<open>signIn\<close> from the status check on\<close>
  "signIn_response e resp =
     (if StatusCode resp \<noteq> 200 then
        Inl (fmt_Errorf [Lit ''unexpected status '', Verb_d (StatusCode resp), Lit '': '',
                         Verb_s (readRespBody (Some (Body resp)))])
      else
        (case Decode_signInResponse e (Body resp) of
           Inl err \<Rightarrow> Inl (fmt_Errorf [Lit ''decode response: '', Verb_w err])
         | Inr result \<Rightarrow> signIn_result result))"

definition signIn_request :: "http_request \<Rightarrow> http_request" where
  "signIn_request req =
     Header_Set ''Accept'' ''application/json''
       (Header_Set ''Content-Type'' ''application/json'' req)"

definition signIn :: "env \<Rightarrow> Client \<Rightarrow> string \<Rightarrow> string \<Rightarrow> http_request list \<Rightarrow>
    (go_error + signInResponse) \<times> http_request list" where
  "signIn e c username password sent =
     (case NewRequestWithContext e ''POST'' (baseURL c @ ''/signin'')
             (JSON \<lparr>Username = username, Password = password, RecaptchaToken = []\<rparr>) of
        Inl err \<Rightarrow> (Inl (fmt_Errorf [Lit ''create request: '', Verb_w err]), sent)
      | Inr req \<Rightarrow>
          (case send e (httpClient c) (signIn_request req) sent of
             (Inl err, sent') \<Rightarrow> (Inl (fmt_Errorf [Lit ''execute request: '', Verb_w err]), sent')
           | (Inr resp, sent') \<Rightarrow> (signIn_response e resp, sent')))"

subsection \<open>getUserBenefits\<close>

definition getUserBenefits_response :: "env \<Rightarrow> http_response \<Rightarrow> go_error + userBenefit list" where
  \<comment> \<open>\<open>getUserBenefits\<close> from the status check on\<close>
  "getUserBenefits_response e resp =
     (if StatusCode resp \<noteq> 200 then
        Inl (fmt_Errorf [Lit ''unexpected status '', Verb_d (StatusCode resp), Lit '': '',
                         Verb_s (readRespBody (Some (Body resp)))])
      else
        (case Decode_userBenefitsResponse e (Body resp) of
           Inl err \<Rightarrow> Inl (fmt_Errorf [Lit ''decode response: '', Verb_w err])
         | Inr result \<Rightarrow> Inr (Benefits result)))"

definition getUserBenefits_request :: "string \<Rightarrow> string \<Rightarrow> http_request \<Rightarrow> http_request" where
  "getUserBenefits_request sessionToken refreshToken req =
     (let req1 = Header_Set ''Accept'' ''application/json'' req;
          req2 = (if sessionToken \<noteq> [] then AddCookie (Cookie ''X-Access-Token'' sessionToken) req1
                  else req1)
      in if refreshToken \<noteq> [] then AddCookie (Cookie ''X-Access-Refresh-Token'' refreshToken) req2
         else req2)"

definition getUserBenefits :: "env \<Rightarrow> Client \<Rightarrow> string \<Rightarrow> string \<Rightarrow> http_request list \<Rightarrow>
    (go_error + userBenefit list) \<times> http_request list" where
  "getUserBenefits e c sessionToken refreshToken sent =
     (case NewRequestWithContext e ''GET'' (baseURL c @ ''/users/me/user-benefits'') NoBody of
        Inl err \<Rightarrow> (Inl (fmt_Errorf [Lit ''create request: '', Verb_w err]), sent)
      | Inr req \<Rightarrow>
          (case send e (httpClient c) (getUserBenefits_request sessionToken refreshToken req) sent of
             (Inl err, sent') \<Rightarrow> (Inl (fmt_Errorf [Lit ''execute request: '', Verb_w err]), sent')
           | (Inr resp, sent') \<Rightarrow> (getUserBenefits_response e resp, sent')))"

subsection \<open>balanceFloat64\<close>

definition balanceFloat64 :: "userBenefit \<Rightarrow> go_error + float64" where
  "balanceFloat64 b =
     (if Balance b = [] then Inr (Finite 0 0)
      else
        (case Int64 (Balance b) of
           Inr i \<Rightarrow> Inr (float64_div (float64_of_int64 i) float64_100)
         | Inl _ \<Rightarrow>
             (case Float64 (Balance b) of
                Inl err \<Rightarrow> Inl err
              | Inr f \<Rightarrow> Inr f)))"

subsection \<open>FetchBalances\<close>

record Balances =
  Lunch :: float64
  Virike :: float64

text \<open>The loop over the wallets, from the balances set so far.\<close>

fun FetchBalances_loop :: "Balances \<Rightarrow> userBenefit list \<Rightarrow> go_error + Balances" where
  "FetchBalances_loop balances [] = Inr balances"
| "FetchBalances_loop balances (benefit # benefits) =
     (case balanceFloat64 benefit of
        Inl err \<Rightarrow>
          Inl (fmt_Errorf [Lit ''parse '', Verb_s (WalletType benefit), Lit '' balance: '',
                           Verb_w err])
      | Inr amount \<Rightarrow>
          FetchBalances_loop
            (if WalletType benefit = ''main'' then balances\<lparr>Lunch := amount\<rparr>
             else if WalletType benefit = ''wellness'' then balances\<lparr>Virike := amount\<rparr>
             else balances)
            benefits)"

definition FetchBalances :: "env \<Rightarrow> Client \<Rightarrow> string \<Rightarrow> string \<Rightarrow> http_request list \<Rightarrow>
    (go_error + Balances) \<times> http_request list" where
  "FetchBalances e c username password sent =
     (if username = [] \<or> password = [] then
        (Inl (errors_New ''username and password are required''), sent)
      else
        (case signIn e c username password sent of
           (Inl err, sent1) \<Rightarrow> (Inl (fmt_Errorf [Lit ''signin failed: '', Verb_w err]), sent1)
         | (Inr session, sent1) \<Rightarrow>
             (case getUserBenefits e c (SessionToken session) (RefreshToken session) sent1 of
                (Inl err, sent2) \<Rightarrow>
                  (Inl (fmt_Errorf [Lit ''fetching balances failed: '', Verb_w err]), sent2)
              | (Inr benefits, sent2) \<Rightarrow>
                  (FetchBalances_loop \<lparr>Lunch = Finite 0 0, Virike = Finite 0 0\<rparr> benefits,
                   sent2))))"

section \<open>The command (package main)\<close>

text \<open>
  What \<open>run\<close> writes to standard output: a \<open>Printf\<close> of a label and an amount with two
  decimals, or the JSON encoding of the two amounts under their keys.
\<close>

datatype written = Printf_2f string float64 | Encoded "(string \<times> float64) list"

definition run_output :: "env \<Rightarrow> string \<Rightarrow> Balances \<Rightarrow> go_error option \<times> written list" where
  \<comment> \<open>the \<open>switch\<close> on the format\<close>
  "run_output e format balances =
     (if ToLower format = ''text'' then
        (None, [Printf_2f ''Lunch: '' (Lunch balances), Printf_2f ''Virike: '' (Virike balances)])
      else if ToLower format = ''json'' then
        (case Encode_error e [(''lunch'', Lunch balances), (''virike'', Virike balances)] of
           Some err \<Rightarrow> (Some (fmt_Errorf [Lit ''encode json: '', Verb_w err]), [])
         | None \<Rightarrow> (None, [Encoded [(''lunch'', Lunch balances), (''virike'', Virike balances)]]))
      else (Some (fmt_Errorf [Lit ''unsupported format '', Verb_q format]), []))"

definition run :: "env \<Rightarrow> string \<Rightarrow> string \<Rightarrow> string \<Rightarrow> string \<Rightarrow> int \<Rightarrow> http_request list \<Rightarrow>
    (go_error option \<times> written list) \<times> http_request list" where
  \<comment> \<open>\<open>timeout\<close> sets the deadline of the context, which is part of what \<open>Do\<close> stands for\<close>
  "run e username password format url timeout sent =
     (if username = [] \<or> password = [] then
        ((Some (fmt_Errorf [Lit ''username and password are required'']), []), sent)
      else
        (case FetchBalances e (NewClient None url) username password sent of
           (Inl err, sent') \<Rightarrow> ((Some err, []), sent')
         | (Inr balances, sent') \<Rightarrow> (run_output e format balances, sent')))"

section \<open>Numbers as they are written\<close>

text \<open>
  A whole number in a JSON document: an optional minus sign and then digits. The number
  it stands for is read off the digits, independently of \<open>strconv\<close>.
\<close>

definition whole_number :: "string \<Rightarrow> bool" where
  "whole_number s =
     (case s of
        [] \<Rightarrow> False
      | c # cs \<Rightarrow> if c = CHR ''-'' then cs \<noteq> [] \<and> list_all is_digit cs else list_all is_digit s)"

definition digits_value :: "string \<Rightarrow> int" where
  "digits_value ds = foldl (\<lambda>n c. n * 10 + digit_val c) 0 ds"

definition number_value :: "string \<Rightarrow> int" where
  "number_value s =
     (case s of
        [] \<Rightarrow> 0
      | c # cs \<Rightarrow> if c = CHR ''-'' then - digits_value cs else digits_value s)"

section \<open>A test server\<close>

text \<open>
  The server of \<open>client_test.go\<close>: it answers \<open>/signin\<close> with one response and
  \<open>/users/me/user-benefits\<close> with another; the decoded bodies are given with them.
\<close>

definition server_URL :: string where
  "server_URL = ''http://127.0.0.1:8080''"

definition httptest_Server ::
  "http_response \<Rightarrow> signInResponse \<Rightarrow> http_response \<Rightarrow> userBenefit list \<Rightarrow> env" where
  "httptest_Server signin_resp session benefits_resp wallets =
     \<lparr>NewRequest_error = (\<lambda>method url. None),
      Do = (\<lambda>hc sent req.
              if URL req = server_URL @ ''/signin'' then Inr signin_resp
              else if URL req = server_URL @ ''/users/me/user-benefits'' then Inr benefits_resp
              else Inl (LibError ''unexpected path'')),
      Decode_signInResponse = (\<lambda>body. Inr session),
      Decode_userBenefitsResponse = (\<lambda>body. Inr \<lparr>Benefits = wallets\<rparr>),
      Encode_error = (\<lambda>payload. None)\<rparr>"

definition status_OK :: http_response where
  "status_OK = \<lparr>StatusCode = 200, Body = Reader [] EOF\<rparr>"

definition tokens :: "string \<Rightarrow> string \<Rightarrow> signInResponse" where
  "tokens sessionToken refreshToken =
     \<lparr>SessionToken = sessionToken, RefreshToken = refreshToken, ExpiresIn = 0, Error = [],
      ErrorCode = [], FieldName = []\<rparr>"

definition wallet :: "string \<Rightarrow> string \<Rightarrow> userBenefit" where
  "wallet walletType balance =
     \<lparr>CardType = [], WalletType = walletType, CardStatus = [], Balance = balance,
      MobileAvailable = False, MobilePayment = False, ExpectsRenewedCard = None,
      AccountActive = False\<rparr>"

definition test_Server :: "userBenefit list \<Rightarrow> env" where
  \<comment> \<open>both requests succeed, and the wallets are the ones given\<close>
  "test_Server wallets =
     httptest_Server status_OK (tokens ''session-token'' ''refresh-token'') status_OK wallets"

definition test_Client :: Client where
  "test_Client = NewClient (Some (http_Client 0)) server_URL"

definition unauthorized_Server :: env where
  \<comment> \<open>sign-in is answered with the status 401 and the body \<open>invalid credentials\<close>\<close>
  "unauthorized_Server =
     httptest_Server \<lparr>StatusCode = 401, Body = Reader ''invalid credentials'' EOF\<rparr>
       (tokens [] []) status_OK []"

section \<open>Properties\<close>

subsection \<open>FetchBalances, once the wallets are fetched\<close>

lemma FetchBalances_fetched:
  assumes "username \<noteq> []" "password \<noteq> []"
    and "fst (signIn e c username password sent) = Inr session"
    and "fst (getUserBenefits e c (SessionToken session) (RefreshToken session)
               (snd (signIn e c username password sent))) = Inr ws"
  shows "FetchBalances e c username password sent =
           (FetchBalances_loop \<lparr>Lunch = Finite 0 0, Virike = Finite 0 0\<rparr> ws,
            snd (getUserBenefits e c (SessionToken session) (RefreshToken session)
                  (snd (signIn e c username password sent))))"
  using assms by (auto simp: FetchBalances_def split: prod.splits sum.splits)

lemma FetchBalances_credentials:
  assumes "fst (FetchBalances e c username password sent) = Inr balances"
  shows "username \<noteq> [] \<and> password \<noteq> []"
  using assms by (auto simp: FetchBalances_def)

lemma FetchBalances_loop_of_fetched:
  assumes "fst (signIn e c username password sent) = Inr session"
    and "fst (getUserBenefits e c (SessionToken session) (RefreshToken session)
               (snd (signIn e c username password sent))) = Inr ws"
    and "fst (FetchBalances e c username password sent) = Inr balances"
  shows "FetchBalances_loop \<lparr>Lunch = Finite 0 0, Virike = Finite 0 0\<rparr> ws = Inr balances"
proof -
  from assms(3) have "username \<noteq> []" "password \<noteq> []"
    using FetchBalances_credentials by blast+
  from FetchBalances_fetched [OF this assms(1,2)] assms(3) show ?thesis
    by simp
qed

lemma loop_Lunch_kept:
  "FetchBalances_loop bal ws = Inr bal' \<Longrightarrow> \<forall>b \<in> set ws. WalletType b \<noteq> ''main'' \<Longrightarrow>
     Lunch bal' = Lunch bal"
  by (induction ws arbitrary: bal) (auto split: sum.splits if_splits)

lemma loop_Virike_kept:
  "FetchBalances_loop bal ws = Inr bal' \<Longrightarrow> \<forall>b \<in> set ws. WalletType b \<noteq> ''wellness'' \<Longrightarrow>
     Virike bal' = Virike bal"
  by (induction ws arbitrary: bal) (auto split: sum.splits if_splits)

lemma loop_Lunch_last:
  "FetchBalances_loop bal ws = Inr bal' \<Longrightarrow> [b \<leftarrow> ws. WalletType b = ''main''] \<noteq> [] \<Longrightarrow>
     balanceFloat64 (last [b \<leftarrow> ws. WalletType b = ''main'']) = Inr (Lunch bal')"
proof (induction ws arbitrary: bal)
  case Nil
  then show ?case by simp
next
  case (Cons w ws)
  from Cons.prems(1) obtain amount where amount: "balanceFloat64 w = Inr amount"
    by (auto split: sum.splits)
  let ?bal = "if WalletType w = ''main'' then bal\<lparr>Lunch := amount\<rparr>
              else if WalletType w = ''wellness'' then bal\<lparr>Virike := amount\<rparr> else bal"
  from Cons.prems(1) amount have rest: "FetchBalances_loop ?bal ws = Inr bal'"
    by simp
  show ?case
  proof (cases "[b \<leftarrow> ws. WalletType b = ''main''] = []")
    case False
    with Cons.IH [OF rest] show ?thesis by simp
  next
    case True
    with Cons.prems(2) have main: "WalletType w = ''main''"
      by (auto split: if_splits)
    from True have "\<forall>b \<in> set ws. WalletType b \<noteq> ''main''"
      by (simp add: filter_empty_conv)
    from loop_Lunch_kept [OF rest this] main have "Lunch bal' = amount"
      by simp
    with True main amount show ?thesis by simp
  qed
qed

lemma loop_Virike_last:
  "FetchBalances_loop bal ws = Inr bal' \<Longrightarrow> [b \<leftarrow> ws. WalletType b = ''wellness''] \<noteq> [] \<Longrightarrow>
     balanceFloat64 (last [b \<leftarrow> ws. WalletType b = ''wellness'']) = Inr (Virike bal')"
proof (induction ws arbitrary: bal)
  case Nil
  then show ?case by simp
next
  case (Cons w ws)
  from Cons.prems(1) obtain amount where amount: "balanceFloat64 w = Inr amount"
    by (auto split: sum.splits)
  let ?bal = "if WalletType w = ''main'' then bal\<lparr>Lunch := amount\<rparr>
              else if WalletType w = ''wellness'' then bal\<lparr>Virike := amount\<rparr> else bal"
  from Cons.prems(1) amount have rest: "FetchBalances_loop ?bal ws = Inr bal'"
    by simp
  show ?case
  proof (cases "[b \<leftarrow> ws. WalletType b = ''wellness''] = []")
    case False
    with Cons.IH [OF rest] show ?thesis by simp
  next
    case True
    with Cons.prems(2) have well: "WalletType w = ''wellness''"
      by (auto split: if_splits)
    from True have "\<forall>b \<in> set ws. WalletType b \<noteq> ''wellness''"
      by (simp add: filter_empty_conv)
    from loop_Virike_kept [OF rest this] well have "Virike bal' = amount"
      by simp
    with True well amount show ?thesis by simp
  qed
qed


subsection \<open>Wallet types that are absent\<close>

text \<open>
  Claim C8. Take a run of \<open>FetchBalances\<close> that returns balances, and let \<open>ws\<close> be the
  wallets its benefits request returned. If no wallet of \<open>ws\<close> has the type \<open>main\<close>, the
  field \<open>Lunch\<close> of the result is \<open>0.0\<close>; if none has the type \<open>wellness\<close>, the field
  \<open>Virike\<close> is \<open>0.0\<close>.
\<close>

theorem absent_wallet_type_is_zero:
  assumes "fst (signIn e c username password sent) = Inr session"
    and "fst (getUserBenefits e c (SessionToken session) (RefreshToken session)
               (snd (signIn e c username password sent))) = Inr ws"
    and "fst (FetchBalances e c username password sent) = Inr balances"
  shows "((\<forall>b \<in> set ws. WalletType b \<noteq> ''main'') \<longrightarrow> Lunch balances = Finite 0 0) \<and>
         ((\<forall>b \<in> set ws. WalletType b \<noteq> ''wellness'') \<longrightarrow> Virike balances = Finite 0 0)"
proof -
  have loop: "FetchBalances_loop \<lparr>Lunch = Finite 0 0, Virike = Finite 0 0\<rparr> ws = Inr balances"
    using assms by (rule FetchBalances_loop_of_fetched)
  show ?thesis
    using loop_Lunch_kept [OF loop] loop_Virike_kept [OF loop] by simp
qed

theorem absent_wallet_type_is_zero_witness:
  "fst (signIn (test_Server [wallet ''main'' ''12.34'']) test_Client ''decimal-user''
         ''decimal-password'' []) = Inr (tokens ''session-token'' ''refresh-token'') \<and>
   fst (getUserBenefits (test_Server [wallet ''main'' ''12.34'']) test_Client ''session-token''
         ''refresh-token''
         (snd (signIn (test_Server [wallet ''main'' ''12.34'']) test_Client ''decimal-user''
                ''decimal-password'' []))) = Inr [wallet ''main'' ''12.34''] \<and>
   fst (FetchBalances (test_Server [wallet ''main'' ''12.34'']) test_Client ''decimal-user''
         ''decimal-password'' []) =
     Inr \<lparr>Lunch = Finite 3473401212609495 (- 48), Virike = Finite 0 0\<rparr> \<and>
   ''wellness'' \<notin> WalletType ` set [wallet ''main'' ''12.34''] \<and>
   Virike \<lparr>Lunch = Finite 3473401212609495 (- 48), Virike = Finite 0 0\<rparr> = Finite 0 0"
proof -
  let ?e = "test_Server [wallet ''main'' ''12.34'']"
  have signin: "fst (signIn ?e test_Client ''decimal-user'' ''decimal-password'' []) =
      Inr (tokens ''session-token'' ''refresh-token'')"
    by code_simp
  have fetch: "fst (getUserBenefits ?e test_Client
        (SessionToken (tokens ''session-token'' ''refresh-token''))
        (RefreshToken (tokens ''session-token'' ''refresh-token''))
        (snd (signIn ?e test_Client ''decimal-user'' ''decimal-password'' []))) =
      Inr [wallet ''main'' ''12.34'']"
    by code_simp
  have result: "fst (FetchBalances ?e test_Client ''decimal-user'' ''decimal-password'' []) =
      Inr \<lparr>Lunch = Finite 3473401212609495 (- 48), Virike = Finite 0 0\<rparr>"
    by code_simp
  have absent: "\<forall>b \<in> set [wallet ''main'' ''12.34'']. WalletType b \<noteq> ''wellness''"
    by (simp add: wallet_def)
  have absent': "''wellness'' \<notin> WalletType ` set [wallet ''main'' ''12.34'']"
    by (simp add: wallet_def)
  from absent_wallet_type_is_zero [OF signin fetch result] absent absent' signin fetch result
  show ?thesis by (simp add: tokens_def)
qed

subsection \<open>Wallet types that occur more than once\<close>

text \<open>
  Claim C10. Take a run of \<open>FetchBalances\<close> that returns balances, and let \<open>ws\<close> be the
  wallets its benefits request returned. If \<open>ws\<close> has wallets of the type \<open>main\<close>, the field
  \<open>Lunch\<close> is the normalized balance of the last of them, and likewise \<open>Virike\<close> for the
  type \<open>wellness\<close>: a later wallet overwrites an earlier one of its type.
\<close>

theorem last_wallet_of_a_type_wins:
  assumes "fst (signIn e c username password sent) = Inr session"
    and "fst (getUserBenefits e c (SessionToken session) (RefreshToken session)
               (snd (signIn e c username password sent))) = Inr ws"
    and "fst (FetchBalances e c username password sent) = Inr balances"
  shows "([b \<leftarrow> ws. WalletType b = ''main''] \<noteq> [] \<longrightarrow>
            balanceFloat64 (last [b \<leftarrow> ws. WalletType b = ''main'']) = Inr (Lunch balances)) \<and>
         ([b \<leftarrow> ws. WalletType b = ''wellness''] \<noteq> [] \<longrightarrow>
            balanceFloat64 (last [b \<leftarrow> ws. WalletType b = ''wellness'']) =
              Inr (Virike balances))"
proof -
  have loop: "FetchBalances_loop \<lparr>Lunch = Finite 0 0, Virike = Finite 0 0\<rparr> ws = Inr balances"
    using assms by (rule FetchBalances_loop_of_fetched)
  show ?thesis
    using loop_Lunch_last [OF loop] loop_Virike_last [OF loop] by simp
qed

theorem last_wallet_of_a_type_wins_witness:
  "fst (signIn (test_Server [wallet ''main'' ''100'', wallet ''wellness'' ''7'',
          wallet ''main'' ''6850'']) test_Client ''test-user'' ''test-password'' []) =
     Inr (tokens ''session-token'' ''refresh-token'') \<and>
   fst (FetchBalances (test_Server [wallet ''main'' ''100'', wallet ''wellness'' ''7'',
          wallet ''main'' ''6850'']) test_Client ''test-user'' ''test-password'' []) =
     Inr \<lparr>Lunch = Finite 137 (- 1), Virike = Finite 1261007895663739 (- 54)\<rparr> \<and>
   last [b \<leftarrow> [wallet ''main'' ''100'', wallet ''wellness'' ''7'', wallet ''main'' ''6850''].
           WalletType b = ''main''] = wallet ''main'' ''6850'' \<and>
   balanceFloat64 (wallet ''main'' ''6850'') = Inr (Finite 137 (- 1))"
proof -
  let ?ws = "[wallet ''main'' ''100'', wallet ''wellness'' ''7'', wallet ''main'' ''6850'']"
  let ?e = "test_Server ?ws"
  have signin: "fst (signIn ?e test_Client ''test-user'' ''test-password'' []) =
      Inr (tokens ''session-token'' ''refresh-token'')"
    by code_simp
  have fetch: "fst (getUserBenefits ?e test_Client
        (SessionToken (tokens ''session-token'' ''refresh-token''))
        (RefreshToken (tokens ''session-token'' ''refresh-token''))
        (snd (signIn ?e test_Client ''test-user'' ''test-password'' []))) = Inr ?ws"
    by code_simp
  have result: "fst (FetchBalances ?e test_Client ''test-user'' ''test-password'' []) =
      Inr \<lparr>Lunch = Finite 137 (- 1), Virike = Finite 1261007895663739 (- 54)\<rparr>"
    by code_simp
  have mains: "[b \<leftarrow> ?ws. WalletType b = ''main''] = [wallet ''main'' ''100'', wallet ''main'' ''6850'']"
    by (simp add: wallet_def)
  from last_wallet_of_a_type_wins [OF signin fetch result] mains signin result
  show ?thesis by simp
qed

subsection \<open>ParseInt on digits, and on anything else\<close>

lemma digit_val_range: "is_digit c \<Longrightarrow> 0 \<le> digit_val c \<and> digit_val c \<le> 9"
  by (auto simp: is_digit_def digit_val_def)

lemma foldl_digits_mono:
  "list_all is_digit cs \<Longrightarrow> 0 \<le> n \<Longrightarrow> n \<le> foldl (\<lambda>n c. n * 10 + digit_val c) n cs"
proof (induction cs arbitrary: n)
  case Nil
  then show ?case by simp
next
  case (Cons c cs)
  from Cons.prems have d: "0 \<le> digit_val c"
    using digit_val_range by simp
  with Cons.prems have "0 \<le> n * 10 + digit_val c" by simp
  with Cons.IH [of "n * 10 + digit_val c"] Cons.prems
  have "n * 10 + digit_val c \<le> foldl (\<lambda>n c. n * 10 + digit_val c) (n * 10 + digit_val c) cs"
    by simp
  with d Cons.prems(2) show ?case by simp
qed

lemma ParseUint_loop_digits:
  "list_all is_digit cs \<Longrightarrow> 0 \<le> n \<Longrightarrow>
     foldl (\<lambda>n c. n * 10 + digit_val c) n cs \<le> maxUint64 \<Longrightarrow>
     ParseUint_loop s0 n cs = (foldl (\<lambda>n c. n * 10 + digit_val c) n cs, None)"
proof (induction cs arbitrary: n)
  case Nil
  then show ?case by simp
next
  case (Cons c cs)
  from Cons.prems have d: "0 \<le> digit_val c" and digit: "is_digit c" and rest: "list_all is_digit cs"
    using digit_val_range by simp_all
  let ?n = "n * 10 + digit_val c"
  from d Cons.prems(2) have nonneg: "0 \<le> ?n" by simp
  from foldl_digits_mono [OF rest nonneg] Cons.prems(3) have bound: "?n \<le> maxUint64"
    by simp
  with d have "n * 10 \<le> maxUint64" by simp
  then have small: "\<not> maxUint64 div 10 + 1 \<le> n"
    by (simp add: maxUint64_def)
  from Cons.IH [OF rest nonneg] Cons.prems(3)
  have "ParseUint_loop s0 ?n cs = (foldl (\<lambda>n c. n * 10 + digit_val c) ?n cs, None)"
    by simp
  with digit small bound show ?case by simp
qed

lemma ParseUint_digits:
  assumes "cs \<noteq> []" "list_all is_digit cs" "digits_value cs \<le> maxUint64"
  shows "ParseUint cs = (digits_value cs, None)"
  using assms ParseUint_loop_digits [of cs 0 cs]
  by (simp add: ParseUint_def digits_value_def)

lemma ParseInt_whole_number:
  assumes "whole_number s"
    and "- 9223372036854775808 \<le> number_value s"
    and "number_value s < 9223372036854775808"
  shows "ParseInt s = Inr (number_value s)"
proof (cases s)
  case Nil
  with assms(1) show ?thesis by (simp add: whole_number_def)
next
  case (Cons c cs)
  show ?thesis
  proof (cases "c = CHR ''-''")
    case True
    with Cons assms have cs: "cs \<noteq> []" "list_all is_digit cs"
      and v: "digits_value cs \<le> 9223372036854775808"
      by (simp_all add: whole_number_def number_value_def)
    from v have "digits_value cs \<le> maxUint64" by (simp add: maxUint64_def)
    from ParseUint_digits [OF cs this] True Cons v show ?thesis
      by (simp add: ParseInt_def ParseInt_signed_def number_value_def)
  next
    case False
    with Cons assms have ds: "s \<noteq> []" "list_all is_digit s"
      and v: "digits_value s < 9223372036854775808"
      by (simp_all add: whole_number_def number_value_def)
    from ds Cons have "is_digit c" by simp
    then have plus: "c \<noteq> CHR ''+''" by (auto simp: is_digit_def)
    from v have "digits_value s \<le> maxUint64" by (simp add: maxUint64_def)
    from ParseUint_digits [OF ds this] False plus Cons v show ?thesis
      by (simp add: ParseInt_def ParseInt_signed_def number_value_def)
  qed
qed

lemma ParseUint_loop_other:
  "\<exists>c \<in> set cs. \<not> is_digit c \<Longrightarrow>
     \<exists>un err. ParseUint_loop s0 n cs = (un, Some err) \<and> (is_range err \<longrightarrow> un = maxUint64)"
proof (induction cs arbitrary: n)
  case Nil
  then show ?case by simp
next
  case (Cons c cs)
  show ?case
  proof (cases "is_digit c")
    case False
    then show ?thesis by (simp add: syntaxError_def ErrSyntax_def ErrRange_def)
  next
    case True
    with Cons.prems have "\<exists>c \<in> set cs. \<not> is_digit c" by auto
    from Cons.IH [OF this] True show ?thesis
      by (simp add: rangeError_def)
  qed
qed

lemma ParseInt_signed_error:
  assumes "is_range err \<longrightarrow> un = maxUint64"
  shows "isl (ParseInt_signed s0 neg (un, Some err))"
  using assms by (auto simp: ParseInt_signed_def maxUint64_def)

lemma ParseInt_other:
  assumes "c \<in> set s" "\<not> is_digit c" "c \<noteq> CHR ''+''" "c \<noteq> CHR ''-''"
  shows "isl (ParseInt s)"
proof (cases s)
  case Nil
  with assms(1) show ?thesis by simp
next
  case (Cons d ds)
  have whole: "\<exists>x \<in> set s. \<not> is_digit x"
    using assms(1,2) by blast
  have tail: "d = CHR ''+'' \<or> d = CHR ''-'' \<Longrightarrow> \<exists>x \<in> set ds. \<not> is_digit x"
    using assms Cons by auto
  show ?thesis
  proof (cases "d = CHR ''+'' \<or> d = CHR ''-''")
    case True
    from tail [OF True] have ne: "ds \<noteq> []" by auto
    from ParseUint_loop_other [OF tail [OF True], of ds 0] obtain un err
      where "ParseUint_loop ds 0 ds = (un, Some err)" "is_range err \<longrightarrow> un = maxUint64"
      by blast
    with ne have "ParseUint ds = (un, Some err)" by (simp add: ParseUint_def)
    with \<open>is_range err \<longrightarrow> un = maxUint64\<close> True Cons ParseInt_signed_error [of err un]
    show ?thesis by (auto simp: ParseInt_def)
  next
    case False
    from ParseUint_loop_other [OF whole, of s 0] obtain un err
      where "ParseUint_loop s 0 s = (un, Some err)" "is_range err \<longrightarrow> un = maxUint64"
      by blast
    with Cons have "ParseUint s = (un, Some err)" by (simp add: ParseUint_def)
    with \<open>is_range err \<longrightarrow> un = maxUint64\<close> False Cons ParseInt_signed_error [of err un]
    show ?thesis by (auto simp: ParseInt_def)
  qed
qed

lemma balanceFloat64_not_Int64:
  assumes "Balance b \<noteq> []" "isl (Int64 (Balance b))"
  shows "balanceFloat64 b = Float64 (Balance b)"
  using assms by (auto simp: balanceFloat64_def split: sum.splits)

lemma ParseUint_loop_digits_range:
  "list_all is_digit cs \<Longrightarrow> 0 \<le> n \<Longrightarrow> n \<le> maxUint64 \<Longrightarrow>
     maxUint64 < foldl (\<lambda>n c. n * 10 + digit_val c) n cs \<Longrightarrow>
     ParseUint_loop s0 n cs = (maxUint64, Some (rangeError ''ParseUint'' s0))"
proof (induction cs arbitrary: n)
  case Nil
  then show ?case by simp
next
  case (Cons c cs)
  from Cons.prems have d: "0 \<le> digit_val c" and digit: "is_digit c" and rest: "list_all is_digit cs"
    using digit_val_range by simp_all
  let ?n = "n * 10 + digit_val c"
  from d Cons.prems(2) have nonneg: "0 \<le> ?n" by simp
  show ?case
  proof (cases "maxUint64 div 10 + 1 \<le> n \<or> maxUint64 < ?n")
    case True
    with digit show ?thesis by auto
  next
    case False
    from False have "?n \<le> maxUint64" by simp
    from Cons.IH [OF rest nonneg this] Cons.prems(4)
    have "ParseUint_loop s0 ?n cs = (maxUint64, Some (rangeError ''ParseUint'' s0))"
      by simp
    with False digit show ?thesis by simp
  qed
qed

lemma ParseUint_digits_cases:
  assumes "cs \<noteq> []" "list_all is_digit cs"
  shows "ParseUint cs =
           (if digits_value cs \<le> maxUint64 then (digits_value cs, None)
            else (maxUint64, Some (rangeError ''ParseUint'' cs)))"
proof (cases "digits_value cs \<le> maxUint64")
  case True
  with ParseUint_digits [OF assms] show ?thesis by simp
next
  case False
  then have "maxUint64 < foldl (\<lambda>n c. n * 10 + digit_val c) 0 cs"
    by (simp add: digits_value_def)
  from ParseUint_loop_digits_range [OF assms(2) _ _ this, of cs] assms(1) False show ?thesis
    by (simp add: ParseUint_def maxUint64_def)
qed

lemma ParseInt_whole_number_beyond:
  assumes "whole_number s"
    and "number_value s < - 9223372036854775808 \<or> 9223372036854775808 \<le> number_value s"
  shows "ParseInt s = Inl (rangeError ''ParseInt'' s)"
proof (cases s)
  case Nil
  with assms(1) show ?thesis by (simp add: whole_number_def)
next
  case (Cons c cs)
  show ?thesis
  proof (cases "c = CHR ''-''")
    case True
    with Cons assms(1) have cs: "cs \<noteq> []" "list_all is_digit cs"
      by (simp_all add: whole_number_def)
    from cs(2) have "0 \<le> digits_value cs"
      using foldl_digits_mono [of cs 0] by (simp add: digits_value_def)
    with True Cons assms(2) have v: "9223372036854775808 < digits_value cs"
      by (simp add: number_value_def)
    from ParseUint_digits_cases [OF cs] v True Cons show ?thesis
      by (simp add: ParseInt_def ParseInt_signed_def rangeError_def maxUint64_def)
  next
    case False
    with Cons assms(1) have ds: "s \<noteq> []" "list_all is_digit s"
      by (simp_all add: whole_number_def)
    from ds(2) have "0 \<le> digits_value s"
      using foldl_digits_mono [of s 0] by (simp add: digits_value_def)
    with False Cons assms(2) have v: "9223372036854775808 \<le> digits_value s"
      by (simp add: number_value_def)
    from ds Cons have "is_digit c" by simp
    then have plus: "c \<noteq> CHR ''+''" by (auto simp: is_digit_def)
    from ParseUint_digits_cases [OF ds] v False plus Cons show ?thesis
      by (simp add: ParseInt_def ParseInt_signed_def rangeError_def maxUint64_def)
  qed
qed

text \<open>
  A whole number outside the range of \<open>int64\<close> is a range error of \<open>ParseInt\<close>, and its
  balance is what \<open>Float64\<close> makes of it.
\<close>

lemma whole_number_beyond_int64_takes_float_parse:
  assumes "whole_number (Balance b)"
    and "number_value (Balance b) < - 9223372036854775808 \<or>
         9223372036854775808 \<le> number_value (Balance b)"
  shows "balanceFloat64 b = Float64 (Balance b)"
proof -
  from assms(1) have "Balance b \<noteq> []"
    by (auto simp: whole_number_def)
  moreover from ParseInt_whole_number_beyond [OF assms] have "isl (Int64 (Balance b))"
    by (simp add: Int64_def)
  ultimately show ?thesis
    by (rule balanceFloat64_not_Int64)
qed

subsection \<open>Balances written as whole numbers\<close>

text \<open>
  Claim C3, as the code has it. If the balance field of a wallet is written as a whole
  number \<open>N\<close>, and \<open>N\<close> is in the range of \<open>int64\<close>, the normalized balance is
  \<open>float64(N) / 100\<close>.
\<close>

theorem whole_number_is_minor_units:
  assumes "whole_number (Balance b)"
    and "- 9223372036854775808 \<le> number_value (Balance b)"
    and "number_value (Balance b) < 9223372036854775808"
  shows "balanceFloat64 b =
           Inr (float64_div (float64_of_int64 (number_value (Balance b))) float64_100)"
proof -
  from assms(1) have "Balance b \<noteq> []"
    by (auto simp: whole_number_def)
  with ParseInt_whole_number [OF assms] show ?thesis
    by (simp add: balanceFloat64_def Int64_def)
qed

theorem whole_number_is_minor_units_witness:
  "whole_number (Balance (wallet ''wellness'' ''12345'')) \<and>
   - 9223372036854775808 \<le> number_value (Balance (wallet ''wellness'' ''12345'')) \<and>
   number_value (Balance (wallet ''wellness'' ''12345'')) < 9223372036854775808 \<and>
   number_value (Balance (wallet ''wellness'' ''12345'')) = 12345 \<and>
   balanceFloat64 (wallet ''wellness'' ''12345'') =
     Inr (float64_div (float64_of_int64 12345) float64_100) \<and>
   float64_div (float64_of_int64 12345) float64_100 = Finite 8687021468732621 (- 46)"
proof -
  have whole: "whole_number (Balance (wallet ''wellness'' ''12345''))"
    by code_simp
  have val: "number_value (Balance (wallet ''wellness'' ''12345'')) = 12345"
    by code_simp
  have lo: "- 9223372036854775808 \<le> number_value (Balance (wallet ''wellness'' ''12345''))"
    and hi: "number_value (Balance (wallet ''wellness'' ''12345'')) < 9223372036854775808"
    by (simp_all add: val)
  have quot: "float64_div (float64_of_int64 12345) float64_100 = Finite 8687021468732621 (- 46)"
    by code_simp
  from whole_number_is_minor_units [OF whole lo hi] whole lo hi val quot
  show ?thesis by simp
qed

text \<open>
  The claim as the specification states it, for every whole number, fails beyond
  \<open>int64\<close>: \<open>9223372036854775808\<close> (\<open>2\<^sup>6\<^sup>3\<close>) is read as a float and used as it is.
\<close>

theorem whole_number_beyond_int64_counterexample:
  "whole_number (Balance (wallet ''main'' ''9223372036854775808'')) \<and>
   number_value (Balance (wallet ''main'' ''9223372036854775808'')) = 9223372036854775808 \<and>
   balanceFloat64 (wallet ''main'' ''9223372036854775808'') = Inr (Finite 1 63) \<and>
   float64_div (float64_round 9223372036854775808 1) float64_100 = Finite 5764607523034235 4 \<and>
   balanceFloat64 (wallet ''main'' ''9223372036854775808'') \<noteq>
     Inr (float64_div (float64_round 9223372036854775808 1) float64_100)"
proof -
  have whole: "whole_number (Balance (wallet ''main'' ''9223372036854775808''))"
    by code_simp
  have val: "number_value (Balance (wallet ''main'' ''9223372036854775808'')) =
      9223372036854775808"
    by code_simp
  have bal: "balanceFloat64 (wallet ''main'' ''9223372036854775808'') = Inr (Finite 1 63)"
    by code_simp
  have quot: "float64_div (float64_round 9223372036854775808 1) float64_100 =
      Finite 5764607523034235 4"
    by code_simp
  from whole val bal quot show ?thesis by simp
qed

subsection \<open>Balances written with a fraction\<close>

text \<open>
  Claim C6, as the code has it. If the balance field of a wallet is written with a decimal
  point, the outcome of the normalization is the outcome of \<open>strconv.ParseFloat\<close> on the
  field: the float nearest to the number written, used as it is and not divided by 100,
  or the error of \<open>ParseFloat\<close>.
\<close>

theorem fraction_is_used_as_is:
  assumes "CHR ''.'' \<in> set (Balance b)"
  shows "balanceFloat64 b = Float64 (Balance b)"
proof -
  have "\<not> is_digit (CHR ''.'')"
    by (simp add: is_digit_def)
  with assms have "isl (Int64 (Balance b))"
    unfolding Int64_def by (intro ParseInt_other [of "CHR ''.''"]) simp_all
  moreover from assms have "Balance b \<noteq> []" by auto
  ultimately show ?thesis by (rule balanceFloat64_not_Int64 [rotated])
qed

theorem fraction_is_used_as_is_witness:
  "CHR ''.'' \<in> set (Balance (wallet ''main'' ''12.34'')) \<and>
   balanceFloat64 (wallet ''main'' ''12.34'') = Float64 (Balance (wallet ''main'' ''12.34'')) \<and>
   Float64 (Balance (wallet ''main'' ''12.34'')) = Inr (Finite 3473401212609495 (- 48))"
proof -
  have dot: "CHR ''.'' \<in> set (Balance (wallet ''main'' ''12.34''))"
    by (simp add: wallet_def)
  have val: "Float64 (Balance (wallet ''main'' ''12.34'')) = Inr (Finite 3473401212609495 (- 48))"
    by code_simp
  from fraction_is_used_as_is [OF dot] dot val show ?thesis by simp
qed

text \<open>
  The claim as the specification states it, for every number with a fraction, fails beyond
  the largest float: \<open>1.5e309\<close> is a parse error, not a balance.
\<close>

lemma ParseFloat_beyond_float64:
  "ParseFloat ''1.5e309'' = Inl (rangeError ''ParseFloat'' ''1.5e309'')"
  by code_simp

lemma balanceFloat64_beyond_float64:
  "balanceFloat64 (wallet t ''1.5e309'') = Inl (rangeError ''ParseFloat'' ''1.5e309'')"
proof -
  have dot: "CHR ''.'' \<in> set ''1.5e309''" by simp
  have "\<not> is_digit (CHR ''.'')" by (simp add: is_digit_def)
  with dot have "isl (ParseInt ''1.5e309'')"
    by (intro ParseInt_other [of "CHR ''.''"]) simp_all
  then show ?thesis
    using ParseFloat_beyond_float64
    by (auto simp: balanceFloat64_def wallet_def Int64_def Float64_def split: sum.splits)
qed

theorem fraction_beyond_float64_counterexample:
  "CHR ''.'' \<in> set (Balance (wallet ''main'' ''1.5e309'')) \<and>
   balanceFloat64 (wallet ''main'' ''1.5e309'') = Inl (rangeError ''ParseFloat'' ''1.5e309'')"
  using balanceFloat64_beyond_float64 [of "''main''"] by (simp add: wallet_def)

subsection \<open>Empty and unreadable balances\<close>

text \<open>
  Claim C7. A wallet \<open>b0\<close> with an empty balance field has the normalized balance \<open>0.0\<close>,
  and the loop of \<open>FetchBalances\<close> goes on after it. A wallet \<open>b\<close> with a balance field that
  is neither an integer (\<open>Int64\<close> fails) nor a decimal number (\<open>Float64\<close> fails with \<open>err\<close>)
  has no normalized balance; when the wallets before it are read, \<open>FetchBalances\<close> stops at
  it with an error whose message is \<open>parse\<close>, the wallet type of \<open>b\<close>, \<open>balance:\<close> and the
  message of \<open>err\<close>.
\<close>

theorem empty_balance_zero_unreadable_balance_error:
  "(Balance b0 = [] \<longrightarrow>
      balanceFloat64 b0 = Inr (Finite 0 0) \<and>
      FetchBalances_loop bal (b0 # ws) =
        FetchBalances_loop
          (if WalletType b0 = ''main'' then bal\<lparr>Lunch := Finite 0 0\<rparr>
           else if WalletType b0 = ''wellness'' then bal\<lparr>Virike := Finite 0 0\<rparr>
           else bal) ws) \<and>
   (Balance b \<noteq> [] \<and> isl (Int64 (Balance b)) \<and> Float64 (Balance b) = Inl err \<and>
    (\<forall>w \<in> set ws1. \<not> isl (balanceFloat64 w)) \<longrightarrow>
      balanceFloat64 b = Inl err \<and>
      FetchBalances_loop bal (ws1 @ b # ws2) =
        Inl (fmt_Errorf [Lit ''parse '', Verb_s (WalletType b), Lit '' balance: '', Verb_w err]) \<and>
      message q (fmt_Errorf [Lit ''parse '', Verb_s (WalletType b), Lit '' balance: '',
                             Verb_w err]) =
        ''parse '' @ WalletType b @ '' balance: '' @ message q err)"
proof (intro conjI impI)
  assume "Balance b0 = []"
  then show zero: "balanceFloat64 b0 = Inr (Finite 0 0)"
    by (simp add: balanceFloat64_def)
  then show "FetchBalances_loop bal (b0 # ws) =
      FetchBalances_loop
        (if WalletType b0 = ''main'' then bal\<lparr>Lunch := Finite 0 0\<rparr>
         else if WalletType b0 = ''wellness'' then bal\<lparr>Virike := Finite 0 0\<rparr>
         else bal) ws"
    by simp
next
  assume a: "Balance b \<noteq> [] \<and> isl (Int64 (Balance b)) \<and> Float64 (Balance b) = Inl err \<and>
    (\<forall>w \<in> set ws1. \<not> isl (balanceFloat64 w))"
  with balanceFloat64_not_Int64 [of b] show fail: "balanceFloat64 b = Inl err"
    by simp
  from a have "\<forall>w \<in> set ws1. \<not> isl (balanceFloat64 w)" by simp
  then show "FetchBalances_loop bal (ws1 @ b # ws2) =
      Inl (fmt_Errorf [Lit ''parse '', Verb_s (WalletType b), Lit '' balance: '', Verb_w err])"
    using fail by (induction ws1 arbitrary: bal) (auto split: sum.splits)
next
  show "message q (fmt_Errorf [Lit ''parse '', Verb_s (WalletType b), Lit '' balance: '',
                               Verb_w err]) =
      ''parse '' @ WalletType b @ '' balance: '' @ message q err"
    by simp
qed

theorem empty_balance_zero_unreadable_balance_error_witness:
  "Balance (wallet ''main'' []) = [] \<and>
   balanceFloat64 (wallet ''main'' []) = Inr (Finite 0 0) \<and>
   Balance (wallet ''wellness'' ''1.5e309'') \<noteq> [] \<and>
   isl (Int64 (Balance (wallet ''wellness'' ''1.5e309''))) \<and>
   Float64 (Balance (wallet ''wellness'' ''1.5e309'')) =
     Inl (rangeError ''ParseFloat'' ''1.5e309'') \<and>
   \<not> isl (balanceFloat64 (wallet ''main'' ''6850'')) \<and>
   FetchBalances_loop \<lparr>Lunch = Finite 0 0, Virike = Finite 0 0\<rparr>
     ([wallet ''main'' ''6850''] @ wallet ''wellness'' ''1.5e309'' # []) =
     Inl (fmt_Errorf [Lit ''parse '', Verb_s (WalletType (wallet ''wellness'' ''1.5e309'')),
                      Lit '' balance: '', Verb_w (rangeError ''ParseFloat'' ''1.5e309'')]) \<and>
   message id (fmt_Errorf [Lit ''parse '', Verb_s (WalletType (wallet ''wellness'' ''1.5e309'')),
                           Lit '' balance: '', Verb_w (rangeError ''ParseFloat'' ''1.5e309'')]) =
     ''parse wellness balance: strconv.ParseFloat: parsing 1.5e309: value out of range''"
proof -
  have empty: "Balance (wallet ''main'' []) = []"
    by (simp add: wallet_def)
  have ne: "Balance (wallet ''wellness'' ''1.5e309'') \<noteq> []"
    by (simp add: wallet_def)
  have int: "isl (Int64 (Balance (wallet ''wellness'' ''1.5e309'')))"
    by code_simp
  have float: "Float64 (Balance (wallet ''wellness'' ''1.5e309'')) =
      Inl (rangeError ''ParseFloat'' ''1.5e309'')"
    using ParseFloat_beyond_float64 by (simp add: wallet_def Float64_def)
  have before: "\<not> isl (balanceFloat64 (wallet ''main'' ''6850''))"
    by code_simp
  then have before': "\<forall>w \<in> set [wallet ''main'' ''6850'']. \<not> isl (balanceFloat64 w)"
    by simp
  have msg: "message id (rangeError ''ParseFloat'' ''1.5e309'') =
      ''strconv.ParseFloat: parsing 1.5e309: value out of range''"
    by code_simp
  have wt: "WalletType (wallet ''wellness'' ''1.5e309'') = ''wellness''"
    by (simp add: wallet_def)
  from empty_balance_zero_unreadable_balance_error
    [of "wallet ''main'' []" "\<lparr>Lunch = Finite 0 0, Virike = Finite 0 0\<rparr>" "[]"
      "wallet ''wellness'' ''1.5e309''" "rangeError ''ParseFloat'' ''1.5e309''"
      "[wallet ''main'' ''6850'']" "[]" id]
    empty ne int float before before' msg wt
  show ?thesis by simp
qed

subsection \<open>Wallets of other types\<close>




subsection \<open>Sign-in\<close>

lemma signIn_token:
  assumes "fst (signIn e c username password sent) = Inr session"
  shows "SessionToken session \<noteq> []"
  using assms
  by (auto simp: signIn_def send_def signIn_response_def signIn_result_def
      split: sum.splits if_splits)

text \<open>
  Claim C4, as the code has it. \<open>signIn\<close> succeeds with \<open>r\<close> exactly when the request can be
  built, \<open>Do\<close> returns a response with the status 200, the body of the response decodes to
  \<open>r\<close>, and the session token of \<open>r\<close> is not empty. A response with another status is a
  failure that gives the status and the start of the body. A decoded body with an empty
  session token is a failure, whose message is the error field of the body when there is
  one. (An error field next to a session token is not looked at.)
\<close>

theorem signIn_succeeds_iff:
  "(fst (signIn e c username password sent) = Inr r \<longleftrightarrow>
      (\<exists>req resp.
         NewRequestWithContext e ''POST'' (baseURL c @ ''/signin'')
           (JSON \<lparr>Username = username, Password = password, RecaptchaToken = []\<rparr>) = Inr req \<and>
         Do e (httpClient c) sent (signIn_request req) = Inr resp \<and>
         StatusCode resp = 200 \<and>
         Decode_signInResponse e (Body resp) = Inr r \<and>
         SessionToken r \<noteq> [])) \<and>
   (\<forall>req resp.
      NewRequestWithContext e ''POST'' (baseURL c @ ''/signin'')
        (JSON \<lparr>Username = username, Password = password, RecaptchaToken = []\<rparr>) = Inr req \<and>
      Do e (httpClient c) sent (signIn_request req) = Inr resp \<and>
      StatusCode resp \<noteq> 200 \<longrightarrow>
      fst (signIn e c username password sent) =
        Inl (fmt_Errorf [Lit ''unexpected status '', Verb_d (StatusCode resp), Lit '': '',
                         Verb_s (readRespBody (Some (Body resp)))])) \<and>
   (\<forall>req resp result.
      NewRequestWithContext e ''POST'' (baseURL c @ ''/signin'')
        (JSON \<lparr>Username = username, Password = password, RecaptchaToken = []\<rparr>) = Inr req \<and>
      Do e (httpClient c) sent (signIn_request req) = Inr resp \<and>
      StatusCode resp = 200 \<and>
      Decode_signInResponse e (Body resp) = Inr result \<and>
      SessionToken result = [] \<longrightarrow>
      fst (signIn e c username password sent) =
        Inl (errors_New (if Error result \<noteq> [] then Error result
                         else ''empty session token in response'')))"
  by (auto simp: signIn_def send_def signIn_response_def signIn_result_def
      split: sum.splits if_splits)

theorem signIn_succeeds_iff_witness:
  "fst (signIn (test_Server []) test_Client ''test-user'' ''test-password'' []) =
     Inr (tokens ''session-token'' ''refresh-token'') \<and>
   (\<exists>req resp.
      NewRequestWithContext (test_Server []) ''POST'' (baseURL test_Client @ ''/signin'')
        (JSON \<lparr>Username = ''test-user'', Password = ''test-password'', RecaptchaToken = []\<rparr>) =
        Inr req \<and>
      Do (test_Server []) (httpClient test_Client) [] (signIn_request req) = Inr resp \<and>
      StatusCode resp = 200 \<and>
      Decode_signInResponse (test_Server []) (Body resp) =
        Inr (tokens ''session-token'' ''refresh-token'') \<and>
      SessionToken (tokens ''session-token'' ''refresh-token'') \<noteq> [])"
proof -
  have "fst (signIn (test_Server []) test_Client ''test-user'' ''test-password'' []) =
      Inr (tokens ''session-token'' ''refresh-token'')"
    by code_simp
  with signIn_succeeds_iff [of "test_Server []" test_Client "''test-user''" "''test-password''"
      "[]" "tokens ''session-token'' ''refresh-token''"]
  show ?thesis by blast
qed

text \<open>
  The claim as the specification states it, with an error field in the body among the
  failures, fails: a body that has a session token and an error field is a success.
\<close>

theorem signIn_error_field_counterexample:
  "Error (tokens ''session-token'' ''refresh-token''\<lparr>Error := ''account locked''\<rparr>) \<noteq> [] \<and>
   fst (signIn
          (httptest_Server status_OK
             (tokens ''session-token'' ''refresh-token''\<lparr>Error := ''account locked''\<rparr>)
             status_OK [])
          test_Client ''test-user'' ''test-password'' []) =
     Inr (tokens ''session-token'' ''refresh-token''\<lparr>Error := ''account locked''\<rparr>)"
  by code_simp

subsection \<open>The cookies of the benefits request\<close>





subsection \<open>Failures of FetchBalances\<close>

lemma sublist_start: "sublist xs (xs @ ys)"
  using sublist_appendI [of xs "[]" ys] by simp

lemma loop_failure:
  "FetchBalances_loop bal ws = Inl err \<Longrightarrow>
     \<exists>b cause. b \<in> set ws \<and> balanceFloat64 b = Inl cause \<and>
       err = fmt_Errorf [Lit ''parse '', Verb_s (WalletType b), Lit '' balance: '', Verb_w cause]"
proof (induction ws arbitrary: bal)
  case Nil
  then show ?case by simp
next
  case (Cons w ws)
  show ?case
  proof (cases "balanceFloat64 w")
    case (Inl cause)
    with Cons.prems have
      "err = fmt_Errorf [Lit ''parse '', Verb_s (WalletType w), Lit '' balance: '', Verb_w cause]"
      by simp
    with Inl show ?thesis by auto
  next
    case (Inr amount)
    with Cons.prems obtain bal' where "FetchBalances_loop bal' ws = Inl err"
      by auto
    from Cons.IH [OF this] show ?thesis by auto
  qed
qed

lemma loop_stops_at_failure:
  assumes "\<forall>w \<in> set ws1. \<not> isl (balanceFloat64 w)" "balanceFloat64 b = Inl cause"
  shows "FetchBalances_loop bal (ws1 @ b # ws2) =
           Inl (fmt_Errorf [Lit ''parse '', Verb_s (WalletType b), Lit '' balance: '',
                            Verb_w cause])"
  using assms by (induction ws1 arbitrary: bal) (auto split: sum.splits)

lemma FetchBalances_signIn_failed:
  assumes "username \<noteq> []" "password \<noteq> []"
    and "fst (signIn e c username password sent) = Inl cause"
  shows "FetchBalances e c username password sent =
           (Inl (fmt_Errorf [Lit ''signin failed: '', Verb_w cause]),
            snd (signIn e c username password sent))"
  using assms by (auto simp: FetchBalances_def split: prod.splits sum.splits)

lemma FetchBalances_getUserBenefits_failed:
  assumes "username \<noteq> []" "password \<noteq> []"
    and "fst (signIn e c username password sent) = Inr session"
    and "fst (getUserBenefits e c (SessionToken session) (RefreshToken session)
               (snd (signIn e c username password sent))) = Inl cause"
  shows "FetchBalances e c username password sent =
           (Inl (fmt_Errorf [Lit ''fetching balances failed: '', Verb_w cause]),
            snd (getUserBenefits e c (SessionToken session) (RefreshToken session)
                  (snd (signIn e c username password sent))))"
  using assms by (auto simp: FetchBalances_def split: prod.splits sum.splits)

lemma signIn_sent_at_most_one:
  "snd (signIn e c username password sent) = sent \<or>
   (\<exists>req. snd (signIn e c username password sent) = sent @ [req])"
  by (auto simp: signIn_def send_def split: sum.splits)

text \<open>
  Claim C5. Take a user name and a password that are not empty.

  Each failure of a stage is a failure of \<open>FetchBalances\<close>, with the error of the stage
  wrapped under the name of the stage. If \<open>signIn\<close> fails, \<open>FetchBalances\<close> fails with
  \<open>signin failed:\<close> and the sign-in error, and sends nothing after what sign-in sent, which
  is one request at most. If \<open>signIn\<close> succeeds and \<open>getUserBenefits\<close> fails, it fails with
  \<open>fetching balances failed:\<close> and that error. If both succeed and a wallet of the list
  cannot be normalized, it fails at the first such wallet with \<open>parse\<close>, the wallet type,
  \<open>balance:\<close> and the error of the normalization.

  The stages fail as the code says. \<open>signIn\<close> fails when its request cannot be built, when
  \<open>Do\<close> returns an error, when the status is not 200, when the body does not decode, and
  when the session token is empty; \<open>getUserBenefits\<close> fails in the first four of these
  ways.

  Conversely a failure of \<open>FetchBalances\<close> is one of these three, and its message starts
  with the name of its stage. In particular, when the response to sign-in has a status
  other than 200 (401, say), \<open>FetchBalances\<close> fails after that one request with a message
  that starts with \<open>signin failed: unexpected status\<close>, and so contains \<open>signin failed\<close>.
\<close>

theorem FetchBalances_failure_names_stage:
  assumes "username \<noteq> []" "password \<noteq> []"
  shows "(\<forall>cause.
            fst (signIn e c username password sent) = Inl cause \<longrightarrow>
            FetchBalances e c username password sent =
              (Inl (fmt_Errorf [Lit ''signin failed: '', Verb_w cause]),
               snd (signIn e c username password sent)) \<and>
            (snd (signIn e c username password sent) = sent \<or>
             (\<exists>req. snd (signIn e c username password sent) = sent @ [req])) \<and>
            message q (fmt_Errorf [Lit ''signin failed: '', Verb_w cause]) =
              ''signin failed: '' @ message q cause) \<and>
         (\<forall>session cause.
            fst (signIn e c username password sent) = Inr session \<and>
            fst (getUserBenefits e c (SessionToken session) (RefreshToken session)
                  (snd (signIn e c username password sent))) = Inl cause \<longrightarrow>
            FetchBalances e c username password sent =
              (Inl (fmt_Errorf [Lit ''fetching balances failed: '', Verb_w cause]),
               snd (getUserBenefits e c (SessionToken session) (RefreshToken session)
                     (snd (signIn e c username password sent)))) \<and>
            message q (fmt_Errorf [Lit ''fetching balances failed: '', Verb_w cause]) =
              ''fetching balances failed: '' @ message q cause) \<and>
         (\<forall>session ws1 b ws2 cause.
            fst (signIn e c username password sent) = Inr session \<and>
            fst (getUserBenefits e c (SessionToken session) (RefreshToken session)
                  (snd (signIn e c username password sent))) = Inr (ws1 @ b # ws2) \<and>
            (\<forall>w \<in> set ws1. \<not> isl (balanceFloat64 w)) \<and>
            balanceFloat64 b = Inl cause \<longrightarrow>
            fst (FetchBalances e c username password sent) =
              Inl (fmt_Errorf [Lit ''parse '', Verb_s (WalletType b), Lit '' balance: '',
                               Verb_w cause]) \<and>
            message q (fmt_Errorf [Lit ''parse '', Verb_s (WalletType b), Lit '' balance: '',
                                   Verb_w cause]) =
              ''parse '' @ WalletType b @ '' balance: '' @ message q cause) \<and>
         (\<forall>err.
            NewRequestWithContext e ''POST'' (baseURL c @ ''/signin'')
              (JSON \<lparr>Username = username, Password = password, RecaptchaToken = []\<rparr>) =
              Inl err \<longrightarrow>
            signIn e c username password sent =
              (Inl (fmt_Errorf [Lit ''create request: '', Verb_w err]), sent)) \<and>
         (\<forall>req err.
            NewRequestWithContext e ''POST'' (baseURL c @ ''/signin'')
              (JSON \<lparr>Username = username, Password = password, RecaptchaToken = []\<rparr>) =
              Inr req \<and>
            Do e (httpClient c) sent (signIn_request req) = Inl err \<longrightarrow>
            signIn e c username password sent =
              (Inl (fmt_Errorf [Lit ''execute request: '', Verb_w err]),
               sent @ [signIn_request req])) \<and>
         (\<forall>req resp.
            NewRequestWithContext e ''POST'' (baseURL c @ ''/signin'')
              (JSON \<lparr>Username = username, Password = password, RecaptchaToken = []\<rparr>) =
              Inr req \<and>
            Do e (httpClient c) sent (signIn_request req) = Inr resp \<and>
            (StatusCode resp \<noteq> 200 \<or>
             isl (Decode_signInResponse e (Body resp)) \<or>
             (\<exists>result. Decode_signInResponse e (Body resp) = Inr result \<and>
                        SessionToken result = [])) \<longrightarrow>
            isl (fst (signIn e c username password sent)) \<and>
            snd (signIn e c username password sent) = sent @ [signIn_request req]) \<and>
         (\<forall>sessionToken refreshToken sent1 err.
            NewRequestWithContext e ''GET'' (baseURL c @ ''/users/me/user-benefits'') NoBody =
              Inl err \<longrightarrow>
            getUserBenefits e c sessionToken refreshToken sent1 =
              (Inl (fmt_Errorf [Lit ''create request: '', Verb_w err]), sent1)) \<and>
         (\<forall>sessionToken refreshToken sent1 req err.
            NewRequestWithContext e ''GET'' (baseURL c @ ''/users/me/user-benefits'') NoBody =
              Inr req \<and>
            Do e (httpClient c) sent1 (getUserBenefits_request sessionToken refreshToken req) =
              Inl err \<longrightarrow>
            getUserBenefits e c sessionToken refreshToken sent1 =
              (Inl (fmt_Errorf [Lit ''execute request: '', Verb_w err]),
               sent1 @ [getUserBenefits_request sessionToken refreshToken req])) \<and>
         (\<forall>sessionToken refreshToken sent1 req resp.
            NewRequestWithContext e ''GET'' (baseURL c @ ''/users/me/user-benefits'') NoBody =
              Inr req \<and>
            Do e (httpClient c) sent1 (getUserBenefits_request sessionToken refreshToken req) =
              Inr resp \<and>
            StatusCode resp \<noteq> 200 \<longrightarrow>
            getUserBenefits e c sessionToken refreshToken sent1 =
              (Inl (fmt_Errorf [Lit ''unexpected status '', Verb_d (StatusCode resp), Lit '': '',
                                Verb_s (readRespBody (Some (Body resp)))]),
               sent1 @ [getUserBenefits_request sessionToken refreshToken req])) \<and>
         (\<forall>sessionToken refreshToken sent1 req resp err.
            NewRequestWithContext e ''GET'' (baseURL c @ ''/users/me/user-benefits'') NoBody =
              Inr req \<and>
            Do e (httpClient c) sent1 (getUserBenefits_request sessionToken refreshToken req) =
              Inr resp \<and>
            StatusCode resp = 200 \<and>
            Decode_userBenefitsResponse e (Body resp) = Inl err \<longrightarrow>
            getUserBenefits e c sessionToken refreshToken sent1 =
              (Inl (fmt_Errorf [Lit ''decode response: '', Verb_w err]),
               sent1 @ [getUserBenefits_request sessionToken refreshToken req])) \<and>
         (\<forall>err. fst (FetchBalances e c username password sent) = Inl err \<longrightarrow>
            (\<exists>cause.
               fst (signIn e c username password sent) = Inl cause \<and>
               snd (FetchBalances e c username password sent) =
                 snd (signIn e c username password sent) \<and>
               message q err = ''signin failed: '' @ message q cause) \<or>
            (\<exists>session cause.
               fst (signIn e c username password sent) = Inr session \<and>
               fst (getUserBenefits e c (SessionToken session) (RefreshToken session)
                     (snd (signIn e c username password sent))) = Inl cause \<and>
               message q err = ''fetching balances failed: '' @ message q cause) \<or>
            (\<exists>session ws b cause.
               fst (signIn e c username password sent) = Inr session \<and>
               fst (getUserBenefits e c (SessionToken session) (RefreshToken session)
                     (snd (signIn e c username password sent))) = Inr ws \<and>
               b \<in> set ws \<and> balanceFloat64 b = Inl cause \<and>
               message q err = ''parse '' @ WalletType b @ '' balance: '' @ message q cause)) \<and>
         (\<forall>req resp.
            NewRequestWithContext e ''POST'' (baseURL c @ ''/signin'')
              (JSON \<lparr>Username = username, Password = password, RecaptchaToken = []\<rparr>) =
              Inr req \<and>
            Do e (httpClient c) sent (signIn_request req) = Inr resp \<and>
            StatusCode resp \<noteq> 200 \<longrightarrow>
            (\<exists>err.
               FetchBalances e c username password sent = (Inl err, sent @ [signIn_request req]) \<and>
               message q err =
                 ''signin failed: unexpected status '' @ itoa (StatusCode resp) @ '': '' @
                 readRespBody (Some (Body resp)) \<and>
               sublist ''signin failed'' (message q err)))"
proof (intro conjI allI impI; (elim conjE)?)
  fix cause
  assume "fst (signIn e c username password sent) = Inl cause"
  from FetchBalances_signIn_failed [OF assms this]
  show "FetchBalances e c username password sent =
      (Inl (fmt_Errorf [Lit ''signin failed: '', Verb_w cause]),
       snd (signIn e c username password sent))" .
next
  show "snd (signIn e c username password sent) = sent \<or>
      (\<exists>req. snd (signIn e c username password sent) = sent @ [req])"
    by (rule signIn_sent_at_most_one)
next
  fix cause
  show "message q (fmt_Errorf [Lit ''signin failed: '', Verb_w cause]) =
      ''signin failed: '' @ message q cause"
    by simp
next
  fix session cause
  assume "fst (signIn e c username password sent) = Inr session"
    and "fst (getUserBenefits e c (SessionToken session) (RefreshToken session)
              (snd (signIn e c username password sent))) = Inl cause"
  from FetchBalances_getUserBenefits_failed [OF assms this]
  show "FetchBalances e c username password sent =
      (Inl (fmt_Errorf [Lit ''fetching balances failed: '', Verb_w cause]),
       snd (getUserBenefits e c (SessionToken session) (RefreshToken session)
             (snd (signIn e c username password sent))))" .
next
  fix cause
  show "message q (fmt_Errorf [Lit ''fetching balances failed: '', Verb_w cause]) =
      ''fetching balances failed: '' @ message q cause"
    by simp
next
  fix session ws1 b ws2 cause
  assume signin: "fst (signIn e c username password sent) = Inr session"
    and fetch: "fst (getUserBenefits e c (SessionToken session) (RefreshToken session)
              (snd (signIn e c username password sent))) = Inr (ws1 @ b # ws2)"
    and before: "\<forall>w \<in> set ws1. \<not> isl (balanceFloat64 w)"
    and fails: "balanceFloat64 b = Inl cause"
  from FetchBalances_fetched [OF assms signin fetch] loop_stops_at_failure [OF before fails]
  show "fst (FetchBalances e c username password sent) =
      Inl (fmt_Errorf [Lit ''parse '', Verb_s (WalletType b), Lit '' balance: '', Verb_w cause])"
    by simp
next
  fix b cause
  show "message q (fmt_Errorf [Lit ''parse '', Verb_s (WalletType b), Lit '' balance: '',
                               Verb_w cause]) =
      ''parse '' @ WalletType b @ '' balance: '' @ message q cause"
    by simp
next
  fix err
  assume "NewRequestWithContext e ''POST'' (baseURL c @ ''/signin'')
      (JSON \<lparr>Username = username, Password = password, RecaptchaToken = []\<rparr>) = Inl err"
  then show "signIn e c username password sent =
      (Inl (fmt_Errorf [Lit ''create request: '', Verb_w err]), sent)"
    by (simp add: signIn_def)
next
  fix req err
  assume "NewRequestWithContext e ''POST'' (baseURL c @ ''/signin'')
      (JSON \<lparr>Username = username, Password = password, RecaptchaToken = []\<rparr>) = Inr req"
    and "Do e (httpClient c) sent (signIn_request req) = Inl err"
  then show "signIn e c username password sent =
      (Inl (fmt_Errorf [Lit ''execute request: '', Verb_w err]), sent @ [signIn_request req])"
    by (simp add: signIn_def send_def)
next
  fix req resp
  assume "NewRequestWithContext e ''POST'' (baseURL c @ ''/signin'')
      (JSON \<lparr>Username = username, Password = password, RecaptchaToken = []\<rparr>) = Inr req"
    and "Do e (httpClient c) sent (signIn_request req) = Inr resp"
    and "StatusCode resp \<noteq> 200 \<or> isl (Decode_signInResponse e (Body resp)) \<or>
      (\<exists>result. Decode_signInResponse e (Body resp) = Inr result \<and> SessionToken result = [])"
  then show "isl (fst (signIn e c username password sent))"
    by (auto simp: signIn_def send_def signIn_response_def signIn_result_def split: sum.splits)
next
  fix req resp
  assume "NewRequestWithContext e ''POST'' (baseURL c @ ''/signin'')
      (JSON \<lparr>Username = username, Password = password, RecaptchaToken = []\<rparr>) = Inr req"
    and "Do e (httpClient c) sent (signIn_request req) = Inr resp"
  then show "snd (signIn e c username password sent) = sent @ [signIn_request req]"
    by (simp add: signIn_def send_def)
next
  fix sessionToken refreshToken sent1 err
  assume "NewRequestWithContext e ''GET'' (baseURL c @ ''/users/me/user-benefits'') NoBody =
      Inl err"
  then show "getUserBenefits e c sessionToken refreshToken sent1 =
      (Inl (fmt_Errorf [Lit ''create request: '', Verb_w err]), sent1)"
    by (simp add: getUserBenefits_def)
next
  fix sessionToken refreshToken sent1 req err
  assume "NewRequestWithContext e ''GET'' (baseURL c @ ''/users/me/user-benefits'') NoBody =
      Inr req"
    and "Do e (httpClient c) sent1 (getUserBenefits_request sessionToken refreshToken req) =
      Inl err"
  then show "getUserBenefits e c sessionToken refreshToken sent1 =
      (Inl (fmt_Errorf [Lit ''execute request: '', Verb_w err]),
       sent1 @ [getUserBenefits_request sessionToken refreshToken req])"
    by (simp add: getUserBenefits_def send_def)
next
  fix sessionToken refreshToken sent1 req resp
  assume "NewRequestWithContext e ''GET'' (baseURL c @ ''/users/me/user-benefits'') NoBody =
      Inr req"
    and "Do e (httpClient c) sent1 (getUserBenefits_request sessionToken refreshToken req) =
      Inr resp"
    and "StatusCode resp \<noteq> 200"
  then show "getUserBenefits e c sessionToken refreshToken sent1 =
      (Inl (fmt_Errorf [Lit ''unexpected status '', Verb_d (StatusCode resp), Lit '': '',
                        Verb_s (readRespBody (Some (Body resp)))]),
       sent1 @ [getUserBenefits_request sessionToken refreshToken req])"
    by (simp add: getUserBenefits_def send_def getUserBenefits_response_def)
next
  fix sessionToken refreshToken sent1 req resp err
  assume "NewRequestWithContext e ''GET'' (baseURL c @ ''/users/me/user-benefits'') NoBody =
      Inr req"
    and "Do e (httpClient c) sent1 (getUserBenefits_request sessionToken refreshToken req) =
      Inr resp"
    and "StatusCode resp = 200"
    and "Decode_userBenefitsResponse e (Body resp) = Inl err"
  then show "getUserBenefits e c sessionToken refreshToken sent1 =
      (Inl (fmt_Errorf [Lit ''decode response: '', Verb_w err]),
       sent1 @ [getUserBenefits_request sessionToken refreshToken req])"
    by (simp add: getUserBenefits_def send_def getUserBenefits_response_def)
next
  fix err
  assume failed: "fst (FetchBalances e c username password sent) = Inl err"
  obtain r1 sent1 where s1: "signIn e c username password sent = (r1, sent1)"
    by (cases "signIn e c username password sent")
  show "(\<exists>cause.
           fst (signIn e c username password sent) = Inl cause \<and>
           snd (FetchBalances e c username password sent) =
             snd (signIn e c username password sent) \<and>
           message q err = ''signin failed: '' @ message q cause) \<or>
        (\<exists>session cause.
           fst (signIn e c username password sent) = Inr session \<and>
           fst (getUserBenefits e c (SessionToken session) (RefreshToken session)
                 (snd (signIn e c username password sent))) = Inl cause \<and>
           message q err = ''fetching balances failed: '' @ message q cause) \<or>
        (\<exists>session ws b cause.
           fst (signIn e c username password sent) = Inr session \<and>
           fst (getUserBenefits e c (SessionToken session) (RefreshToken session)
                 (snd (signIn e c username password sent))) = Inr ws \<and>
           b \<in> set ws \<and> balanceFloat64 b = Inl cause \<and>
           message q err = ''parse '' @ WalletType b @ '' balance: '' @ message q cause)"
  proof (cases r1)
    case (Inl cause)
    with s1 failed assms show ?thesis
      by (auto simp: FetchBalances_def)
  next
    case (Inr session)
    obtain r2 sent2 where s2:
      "getUserBenefits e c (SessionToken session) (RefreshToken session) sent1 = (r2, sent2)"
      by (cases "getUserBenefits e c (SessionToken session) (RefreshToken session) sent1")
    show ?thesis
    proof (cases r2)
      case (Inl cause)
      with Inr s1 s2 failed assms show ?thesis
        by (auto simp: FetchBalances_def)
    next
      case ws: (Inr ws)
      with Inr s1 s2 failed assms
      have loop: "FetchBalances_loop \<lparr>Lunch = Finite 0 0, Virike = Finite 0 0\<rparr> ws = Inl err"
        by (auto simp: FetchBalances_def)
      from loop_failure [OF loop] obtain b cause where
        "b \<in> set ws" "balanceFloat64 b = Inl cause"
        "message q err = ''parse '' @ WalletType b @ '' balance: '' @ message q cause"
        by auto
      with Inr ws s1 s2 show ?thesis
        by auto
    qed
  qed
next
  fix req resp
  assume a: "NewRequestWithContext e ''POST'' (baseURL c @ ''/signin'')
      (JSON \<lparr>Username = username, Password = password, RecaptchaToken = []\<rparr>) = Inr req"
    "Do e (httpClient c) sent (signIn_request req) = Inr resp" "StatusCode resp \<noteq> 200"
  let ?err = "fmt_Errorf [Lit ''signin failed: '',
      Verb_w (fmt_Errorf [Lit ''unexpected status '', Verb_d (StatusCode resp), Lit '': '',
                          Verb_s (readRespBody (Some (Body resp)))])]"
  from a assms have run: "FetchBalances e c username password sent =
      (Inl ?err, sent @ [signIn_request req])"
    by (simp add: FetchBalances_def signIn_def send_def signIn_response_def)
  have msg: "message q ?err =
      ''signin failed: unexpected status '' @ itoa (StatusCode resp) @ '': '' @
      readRespBody (Some (Body resp))"
    by simp
  have "sublist ''signin failed'' (''signin failed'' @ '': unexpected status '' @
      itoa (StatusCode resp) @ '': '' @ readRespBody (Some (Body resp)))"
    by (rule sublist_start)
  with msg have "sublist ''signin failed'' (message q ?err)"
    by simp
  with run msg
  show "\<exists>err.
      FetchBalances e c username password sent = (Inl err, sent @ [signIn_request req]) \<and>
      message q err =
        ''signin failed: unexpected status '' @ itoa (StatusCode resp) @ '': '' @
        readRespBody (Some (Body resp)) \<and>
      sublist ''signin failed'' (message q err)"
    by blast
qed

theorem FetchBalances_failure_names_stage_witness:
  "''user'' \<noteq> [] \<and> ''badpass'' \<noteq> [] \<and>
   NewRequestWithContext unauthorized_Server ''POST'' (baseURL test_Client @ ''/signin'')
     (JSON \<lparr>Username = ''user'', Password = ''badpass'', RecaptchaToken = []\<rparr>) =
     Inr \<lparr>Method = ''POST'', URL = ''http://127.0.0.1:8080/signin'', Header = [],
          ReqBody = JSON \<lparr>Username = ''user'', Password = ''badpass'', RecaptchaToken = []\<rparr>\<rparr> \<and>
   Do unauthorized_Server (httpClient test_Client) []
     (signIn_request
        \<lparr>Method = ''POST'', URL = ''http://127.0.0.1:8080/signin'', Header = [],
          ReqBody = JSON \<lparr>Username = ''user'', Password = ''badpass'', RecaptchaToken = []\<rparr>\<rparr>) =
     Inr \<lparr>StatusCode = 401, Body = Reader ''invalid credentials'' EOF\<rparr> \<and>
   (\<exists>err.
      FetchBalances unauthorized_Server test_Client ''user'' ''badpass'' [] =
        (Inl err,
         [signIn_request
            \<lparr>Method = ''POST'', URL = ''http://127.0.0.1:8080/signin'', Header = [],
               ReqBody = JSON \<lparr>Username = ''user'', Password = ''badpass'',
                               RecaptchaToken = []\<rparr>\<rparr>]) \<and>
      message id err = ''signin failed: unexpected status 401: invalid credentials'' \<and>
      sublist ''signin failed'' (message id err)) \<and>
   fst (signIn (test_Server [wallet ''main'' ''6850'', wallet ''wellness'' ''1.5e309''])
         test_Client ''user'' ''badpass'' []) = Inr (tokens ''session-token'' ''refresh-token'') \<and>
   \<not> isl (balanceFloat64 (wallet ''main'' ''6850'')) \<and>
   balanceFloat64 (wallet ''wellness'' ''1.5e309'') =
     Inl (rangeError ''ParseFloat'' ''1.5e309'') \<and>
   fst (FetchBalances (test_Server [wallet ''main'' ''6850'', wallet ''wellness'' ''1.5e309''])
         test_Client ''user'' ''badpass'' []) =
     Inl (fmt_Errorf [Lit ''parse '', Verb_s (WalletType (wallet ''wellness'' ''1.5e309'')),
                      Lit '' balance: '', Verb_w (rangeError ''ParseFloat'' ''1.5e309'')])"
proof -
  let ?req = "\<lparr>Method = ''POST'', URL = ''http://127.0.0.1:8080/signin'', Header = [],
      ReqBody = JSON \<lparr>Username = ''user'', Password = ''badpass'', RecaptchaToken = []\<rparr>\<rparr>"
  let ?resp = "\<lparr>StatusCode = 401, Body = Reader ''invalid credentials'' EOF\<rparr>"
  have user: "''user'' \<noteq> []" and pass: "''badpass'' \<noteq> []"
    by simp_all
  have built: "NewRequestWithContext unauthorized_Server ''POST'' (baseURL test_Client @ ''/signin'')
      (JSON \<lparr>Username = ''user'', Password = ''badpass'', RecaptchaToken = []\<rparr>) = Inr ?req"
    by code_simp
  have answer: "Do unauthorized_Server (httpClient test_Client) [] (signIn_request ?req) =
      Inr ?resp"
    by code_simp
  have status: "StatusCode ?resp \<noteq> 200"
    by simp
  have digits: "itoa (StatusCode ?resp) = ''401''"
    by code_simp
  have body: "readRespBody (Some (Body ?resp)) = ''invalid credentials''"
    by code_simp
  note all = FetchBalances_failure_names_stage
    [OF user pass, of unauthorized_Server test_Client "[]" id]
  note last = all [THEN conjunct2, THEN conjunct2, THEN conjunct2, THEN conjunct2,
      THEN conjunct2, THEN conjunct2, THEN conjunct2, THEN conjunct2, THEN conjunct2,
      THEN conjunct2, THEN conjunct2, THEN spec, THEN spec, THEN mp]
  from last [of ?req ?resp] built answer status
  obtain err where
    "FetchBalances unauthorized_Server test_Client ''user'' ''badpass'' [] =
       (Inl err, [] @ [signIn_request ?req])"
    "message id err =
       ''signin failed: unexpected status '' @ itoa (StatusCode ?resp) @ '': '' @
       readRespBody (Some (Body ?resp))"
    "sublist ''signin failed'' (message id err)"
    by blast
  then have first: "\<exists>err.
      FetchBalances unauthorized_Server test_Client ''user'' ''badpass'' [] =
        (Inl err, [signIn_request ?req]) \<and>
      message id err = ''signin failed: unexpected status 401: invalid credentials'' \<and>
      sublist ''signin failed'' (message id err)"
    using digits body by (intro exI [of _ err]) simp
  let ?ws = "[wallet ''main'' ''6850'', wallet ''wellness'' ''1.5e309'']"
  have signin: "fst (signIn (test_Server ?ws) test_Client ''user'' ''badpass'' []) =
      Inr (tokens ''session-token'' ''refresh-token'')"
    by code_simp
  have fetch: "fst (getUserBenefits (test_Server ?ws) test_Client
        (SessionToken (tokens ''session-token'' ''refresh-token''))
        (RefreshToken (tokens ''session-token'' ''refresh-token''))
        (snd (signIn (test_Server ?ws) test_Client ''user'' ''badpass'' []))) =
      Inr ([wallet ''main'' ''6850''] @ wallet ''wellness'' ''1.5e309'' # [])"
    by code_simp
  have readable: "\<not> isl (balanceFloat64 (wallet ''main'' ''6850''))"
    by code_simp
  then have before: "\<forall>w \<in> set [wallet ''main'' ''6850'']. \<not> isl (balanceFloat64 w)"
    by simp
  have unreadable: "balanceFloat64 (wallet ''wellness'' ''1.5e309'') =
      Inl (rangeError ''ParseFloat'' ''1.5e309'')"
    by (rule balanceFloat64_beyond_float64)
  note parse = FetchBalances_failure_names_stage
    [OF user pass, of "test_Server ?ws" test_Client "[]" id,
      THEN conjunct2, THEN conjunct2, THEN conjunct1, THEN spec, THEN spec, THEN spec,
      THEN spec, THEN spec, THEN mp, THEN conjunct1]
  from parse [of "tokens ''session-token'' ''refresh-token''" "[wallet ''main'' ''6850'']"
      "wallet ''wellness'' ''1.5e309''" "[]" "rangeError ''ParseFloat'' ''1.5e309''"]
    signin fetch before unreadable
  have second: "fst (FetchBalances (test_Server ?ws) test_Client ''user'' ''badpass'' []) =
      Inl (fmt_Errorf [Lit ''parse '', Verb_s (WalletType (wallet ''wellness'' ''1.5e309'')),
                       Lit '' balance: '', Verb_w (rangeError ''ParseFloat'' ''1.5e309'')])"
    by blast
  from first second user pass built answer signin readable unreadable show ?thesis
    by (intro conjI) simp_all
qed

subsection \<open>The format is looked at last\<close>

lemma getUserBenefits_sent:
  "\<exists>more. snd (getUserBenefits e c sessionToken refreshToken sent) = sent @ more"
  by (auto simp: getUserBenefits_def send_def split: sum.splits)

lemma signIn_sends:
  assumes "NewRequest_error e ''POST'' (baseURL c @ ''/signin'') = None"
  shows "snd (signIn e c username password sent) =
           sent @ [signIn_request
                     \<lparr>Method = ''POST'', URL = baseURL c @ ''/signin'', Header = [],
                        ReqBody = JSON \<lparr>Username = username, Password = password,
                                        RecaptchaToken = []\<rparr>\<rparr>]"
  using assms by (auto simp: signIn_def NewRequestWithContext_def send_def split: sum.splits)

lemma FetchBalances_sends:
  assumes "username \<noteq> []" "password \<noteq> []"
    and "NewRequest_error e ''POST'' (baseURL c @ ''/signin'') = None"
  shows "\<exists>more. snd (FetchBalances e c username password sent) =
           sent @ signIn_request
                     \<lparr>Method = ''POST'', URL = baseURL c @ ''/signin'', Header = [],
                        ReqBody = JSON \<lparr>Username = username, Password = password,
                                        RecaptchaToken = []\<rparr>\<rparr> # more"
proof -
  let ?req = "signIn_request
      \<lparr>Method = ''POST'', URL = baseURL c @ ''/signin'', Header = [],
         ReqBody = JSON \<lparr>Username = username, Password = password, RecaptchaToken = []\<rparr>\<rparr>"
  obtain r1 sent1 where s1: "signIn e c username password sent = (r1, sent1)"
    by (cases "signIn e c username password sent")
  with signIn_sends [OF assms(3), of username password sent] have sent1: "sent1 = sent @ [?req]"
    by simp
  show ?thesis
  proof (cases r1)
    case (Inl err)
    with s1 sent1 assms(1,2) show ?thesis
      by (simp add: FetchBalances_def)
  next
    case (Inr session)
    from getUserBenefits_sent [of e c "SessionToken session" "RefreshToken session" sent1]
    obtain more where
      "snd (getUserBenefits e c (SessionToken session) (RefreshToken session) sent1) =
         sent1 @ more"
      by blast
    with Inr s1 sent1 assms(1,2) show ?thesis
      by (auto simp: FetchBalances_def split: prod.splits sum.splits)
  qed
qed

text \<open>
  Claim C1 does not hold of the code. \<open>run\<close> looks at the format only after
  \<open>FetchBalances\<close> has returned balances: with a user name and a password that are not
  empty, and whatever the format is, the sign-in request is sent.
\<close>

theorem run_signs_in_whatever_the_format:
  assumes "username \<noteq> []" "password \<noteq> []"
    and "NewRequest_error e ''POST'' (baseURL (NewClient None url) @ ''/signin'') = None"
  shows "\<exists>more. snd (run e username password format url timeout sent) =
           sent @ signIn_request
                     \<lparr>Method = ''POST'', URL = baseURL (NewClient None url) @ ''/signin'',
                        Header = [],
                        ReqBody = JSON \<lparr>Username = username, Password = password,
                                        RecaptchaToken = []\<rparr>\<rparr> # more"
proof -
  have "snd (run e username password format url timeout sent) =
      snd (FetchBalances e (NewClient None url) username password sent)"
    using assms(1,2) by (simp add: run_def split: prod.splits sum.splits)
  with FetchBalances_sends [OF assms] show ?thesis
    by simp
qed

theorem run_signs_in_whatever_the_format_witness:
  "''test-user'' \<noteq> [] \<and> ''test-password'' \<noteq> [] \<and>
   NewRequest_error (test_Server [wallet ''main'' ''6850'']) ''POST''
     (baseURL (NewClient None server_URL) @ ''/signin'') = None \<and>
   ToLower ''xml'' \<noteq> ''text'' \<and> ToLower ''xml'' \<noteq> ''json'' \<and>
   fst (run (test_Server [wallet ''main'' ''6850'']) ''test-user'' ''test-password'' ''xml''
         server_URL (15 * Second) []) =
     (Some (fmt_Errorf [Lit ''unsupported format '', Verb_q ''xml'']), []) \<and>
   map URL (snd (run (test_Server [wallet ''main'' ''6850'']) ''test-user'' ''test-password''
                  ''xml'' server_URL (15 * Second) [])) =
     [''http://127.0.0.1:8080/signin'', ''http://127.0.0.1:8080/users/me/user-benefits''] \<and>
   fst (run unauthorized_Server ''test-user'' ''test-password'' ''xml'' server_URL
         (15 * Second) []) =
     (Some (fmt_Errorf [Lit ''signin failed: '',
              Verb_w (fmt_Errorf [Lit ''unexpected status '', Verb_d 401, Lit '': '',
                                  Verb_s ''invalid credentials''])]), []) \<and>
   (\<exists>more.
      snd (run (test_Server [wallet ''main'' ''6850'']) ''test-user'' ''test-password'' ''xml''
            server_URL (15 * Second) []) =
        [] @ signIn_request
               \<lparr>Method = ''POST'', URL = baseURL (NewClient None server_URL) @ ''/signin'',
                  Header = [],
                  ReqBody = JSON \<lparr>Username = ''test-user'', Password = ''test-password'',
                                  RecaptchaToken = []\<rparr>\<rparr> # more)"
proof -
  let ?e = "test_Server [wallet ''main'' ''6850'']"
  have user: "''test-user'' \<noteq> []" and pass: "''test-password'' \<noteq> []"
    by simp_all
  have built: "NewRequest_error ?e ''POST'' (baseURL (NewClient None server_URL) @ ''/signin'') =
      None"
    by code_simp
  have format: "ToLower ''xml'' \<noteq> ''text'' \<and> ToLower ''xml'' \<noteq> ''json''"
    by code_simp
  have result: "fst (run ?e ''test-user'' ''test-password'' ''xml'' server_URL (15 * Second) []) =
      (Some (fmt_Errorf [Lit ''unsupported format '', Verb_q ''xml'']), [])"
    by code_simp
  have calls: "map URL (snd (run ?e ''test-user'' ''test-password'' ''xml'' server_URL
        (15 * Second) [])) =
      [''http://127.0.0.1:8080/signin'', ''http://127.0.0.1:8080/users/me/user-benefits'']"
    by code_simp
  have refused: "fst (run unauthorized_Server ''test-user'' ''test-password'' ''xml'' server_URL
        (15 * Second) []) =
      (Some (fmt_Errorf [Lit ''signin failed: '',
               Verb_w (fmt_Errorf [Lit ''unexpected status '', Verb_d 401, Lit '': '',
                                   Verb_s ''invalid credentials''])]), [])"
    by code_simp
  from run_signs_in_whatever_the_format [OF user pass built, of "''xml''" "15 * Second" "[]"]
    user pass built format result calls refused
  show ?thesis by simp
qed

end
